theory Spec2Isabelle
  imports Complex_Main "HOL-Library.Char_ord" "HOL-Library.List_Lexorder"
begin

section \<open>JSON values and the syntax check of encoding/json\<close>

text \<open>
  A decoded JSON value, as Go's \<^verbatim>\<open>interface{}\<close> holds it after
  \<^verbatim>\<open>json.Unmarshal\<close>: \<^verbatim>\<open>nil\<close>, \<^verbatim>\<open>bool\<close>,
  \<^verbatim>\<open>float64\<close>, \<^verbatim>\<open>string\<close>, a slice or a map. A finite
  \<^verbatim>\<open>float64\<close> is a rational number. The same type describes the JSON
  documents the client sends (an object then lists its members in the order of the struct's
  fields).
\<close>

datatype json =
    JNull
  | JBool bool
  | JNum rat
  | JStr string
  | JArr "json list"
  | JObj "(string \<times> json) list"

text \<open>
  \<^verbatim>\<open>json.Unmarshal\<close> first runs \<^verbatim>\<open>checkValid\<close> over the whole
  input and decodes only afterwards. \<^verbatim>\<open>checkValid\<close> is the byte-by-byte
  state machine of the library's scanner: a current step function and a stack of parse
  states. The step functions are modelled one by one; \<open>None\<close> is the scanner's error
  state. (After a complete top-level value the library records the error of a trailing
  non-space byte and reports it at the next byte or at the end of the input; the input is
  rejected either way.)
\<close>

datatype parse_state = parseObjectKey | parseObjectValue | parseArrayValue

datatype step_state =
    stateBeginValue | stateBeginValueOrEmpty | stateBeginStringOrEmpty | stateBeginString
  | stateEndValue | stateEndTop
  | stateInString | stateInStringEsc
  | stateInStringEscU | stateInStringEscU1 | stateInStringEscU12 | stateInStringEscU123
  | stateNeg | state1 | state0 | stateDot | stateDot0 | stateE | stateESign | stateE0
  | stateT | stateTr | stateTru
  | stateF | stateFa | stateFal | stateFals
  | stateN | stateNu | stateNul

type_synonym scanner = "step_state \<times> parse_state list"

definition maxNestingDepth :: nat where
  "maxNestingDepth = 10000"

definition isSpace :: "char \<Rightarrow> bool" where
  "isSpace c = (c = CHR '' '' \<or> c = CHR 0x09 \<or> c = CHR 0x0D \<or> c = CHR 0x0A)"

definition isDigit :: "char \<Rightarrow> bool" where
  "isDigit c = (c \<in> set ''0123456789'')"

definition isDigit19 :: "char \<Rightarrow> bool" where
  "isDigit19 c = (c \<in> set ''123456789'')"

definition isHex :: "char \<Rightarrow> bool" where
  "isHex c = (c \<in> set ''0123456789abcdefABCDEF'')"

definition pushParseState :: "parse_state list \<Rightarrow> parse_state \<Rightarrow> step_state \<Rightarrow> scanner option" where
  "pushParseState ps p next =
     (if length (p # ps) \<le> maxNestingDepth then Some (next, p # ps) else None)"

definition popParseState :: "parse_state list \<Rightarrow> scanner" where
  "popParseState ps = (if tl ps = [] then (stateEndTop, tl ps) else (stateEndValue, tl ps))"

fun stepEndValue :: "parse_state list \<Rightarrow> char \<Rightarrow> scanner option" where
  "stepEndValue [] c = (if isSpace c then Some (stateEndTop, []) else None)"
| "stepEndValue (p # ps) c =
     (if isSpace c then Some (stateEndValue, p # ps)
      else case p of
        parseObjectKey \<Rightarrow>
          (if c = CHR '':'' then Some (stateBeginValue, parseObjectValue # ps) else None)
      | parseObjectValue \<Rightarrow>
          (if c = CHR '','' then Some (stateBeginString, parseObjectKey # ps)
           else if c = CHR ''}'' then Some (popParseState (p # ps))
           else None)
      | parseArrayValue \<Rightarrow>
          (if c = CHR '','' then Some (stateBeginValue, p # ps)
           else if c = CHR '']'' then Some (popParseState (p # ps))
           else None))"

definition stepBeginValue :: "parse_state list \<Rightarrow> char \<Rightarrow> scanner option" where
  "stepBeginValue ps c =
     (if isSpace c then Some (stateBeginValue, ps)
      else if c = CHR ''{'' then pushParseState ps parseObjectKey stateBeginStringOrEmpty
      else if c = CHR ''['' then pushParseState ps parseArrayValue stateBeginValueOrEmpty
      else if c = CHR 0x22 then Some (stateInString, ps)
      else if c = CHR ''-'' then Some (stateNeg, ps)
      else if c = CHR ''0'' then Some (state0, ps)
      else if c = CHR ''t'' then Some (stateT, ps)
      else if c = CHR ''f'' then Some (stateF, ps)
      else if c = CHR ''n'' then Some (stateN, ps)
      else if isDigit19 c then Some (state1, ps)
      else None)"

definition stepBeginString :: "parse_state list \<Rightarrow> char \<Rightarrow> scanner option" where
  "stepBeginString ps c =
     (if isSpace c then Some (stateBeginString, ps)
      else if c = CHR 0x22 then Some (stateInString, ps)
      else None)"

definition step0 :: "parse_state list \<Rightarrow> char \<Rightarrow> scanner option" where
  "step0 ps c =
     (if c = CHR ''.'' then Some (stateDot, ps)
      else if c = CHR ''e'' \<or> c = CHR ''E'' then Some (stateE, ps)
      else stepEndValue ps c)"

definition stepESign :: "parse_state list \<Rightarrow> char \<Rightarrow> scanner option" where
  "stepESign ps c = (if isDigit c then Some (stateE0, ps) else None)"

definition expect :: "char \<Rightarrow> step_state \<Rightarrow> parse_state list \<Rightarrow> char \<Rightarrow> scanner option" where
  "expect want next ps c = (if c = want then Some (next, ps) else None)"

fun scan_step :: "scanner \<Rightarrow> char \<Rightarrow> scanner option" where
  "scan_step (stateBeginValue, ps) c = stepBeginValue ps c"
| "scan_step (stateBeginValueOrEmpty, ps) c =
     (if isSpace c then Some (stateBeginValueOrEmpty, ps)
      else if c = CHR '']'' then stepEndValue ps c
      else stepBeginValue ps c)"
| "scan_step (stateBeginStringOrEmpty, ps) c =
     (if isSpace c then Some (stateBeginStringOrEmpty, ps)
      else if c = CHR ''}'' then stepEndValue (parseObjectValue # tl ps) c
      else stepBeginString ps c)"
| "scan_step (stateBeginString, ps) c = stepBeginString ps c"
| "scan_step (stateEndValue, ps) c = stepEndValue ps c"
| "scan_step (stateEndTop, ps) c = (if isSpace c then Some (stateEndTop, ps) else None)"
| "scan_step (stateInString, ps) c =
     (if c = CHR 0x22 then Some (stateEndValue, ps)
      else if c = CHR 0x5C then Some (stateInStringEsc, ps)
      else if (of_char c :: nat) < 0x20 then None
      else Some (stateInString, ps))"
| "scan_step (stateInStringEsc, ps) c =
     (if c \<in> set ''bfnrt/'' \<or> c = CHR 0x5C \<or> c = CHR 0x22 then Some (stateInString, ps)
      else if c = CHR ''u'' then Some (stateInStringEscU, ps)
      else None)"
| "scan_step (stateInStringEscU, ps) c = (if isHex c then Some (stateInStringEscU1, ps) else None)"
| "scan_step (stateInStringEscU1, ps) c = (if isHex c then Some (stateInStringEscU12, ps) else None)"
| "scan_step (stateInStringEscU12, ps) c = (if isHex c then Some (stateInStringEscU123, ps) else None)"
| "scan_step (stateInStringEscU123, ps) c = (if isHex c then Some (stateInString, ps) else None)"
| "scan_step (stateNeg, ps) c =
     (if c = CHR ''0'' then Some (state0, ps)
      else if isDigit19 c then Some (state1, ps)
      else None)"
| "scan_step (state1, ps) c = (if isDigit c then Some (state1, ps) else step0 ps c)"
| "scan_step (state0, ps) c = step0 ps c"
| "scan_step (stateDot, ps) c = (if isDigit c then Some (stateDot0, ps) else None)"
| "scan_step (stateDot0, ps) c =
     (if isDigit c then Some (stateDot0, ps)
      else if c = CHR ''e'' \<or> c = CHR ''E'' then Some (stateE, ps)
      else stepEndValue ps c)"
| "scan_step (stateE, ps) c =
     (if c = CHR ''+'' \<or> c = CHR ''-'' then Some (stateESign, ps) else stepESign ps c)"
| "scan_step (stateESign, ps) c = stepESign ps c"
| "scan_step (stateE0, ps) c = (if isDigit c then Some (stateE0, ps) else stepEndValue ps c)"
| "scan_step (stateT, ps) c = expect (CHR ''r'') stateTr ps c"
| "scan_step (stateTr, ps) c = expect (CHR ''u'') stateTru ps c"
| "scan_step (stateTru, ps) c = expect (CHR ''e'') stateEndValue ps c"
| "scan_step (stateF, ps) c = expect (CHR ''a'') stateFa ps c"
| "scan_step (stateFa, ps) c = expect (CHR ''l'') stateFal ps c"
| "scan_step (stateFal, ps) c = expect (CHR ''s'') stateFals ps c"
| "scan_step (stateFals, ps) c = expect (CHR ''e'') stateEndValue ps c"
| "scan_step (stateN, ps) c = expect (CHR ''u'') stateNu ps c"
| "scan_step (stateNu, ps) c = expect (CHR ''l'') stateNul ps c"
| "scan_step (stateNul, ps) c = expect (CHR ''l'') stateEndValue ps c"

text \<open>The scanner's \<^verbatim>\<open>eof\<close>: the input ends well when a top-level value is
  complete, at the latest after one more space is fed to the current step.\<close>

definition scan_eof :: "scanner \<Rightarrow> bool" where
  "scan_eof sc =
     (if fst sc = stateEndTop then True
      else case scan_step sc (CHR '' '') of
             None \<Rightarrow> False
           | Some sc' \<Rightarrow> fst sc' = stateEndTop)"

fun scan_all :: "scanner \<Rightarrow> string \<Rightarrow> scanner option" where
  "scan_all sc [] = Some sc"
| "scan_all sc (c # cs) =
     (case scan_step sc c of None \<Rightarrow> None | Some sc' \<Rightarrow> scan_all sc' cs)"

definition checkValid :: "string \<Rightarrow> bool" where
  "checkValid data =
     (case scan_all (stateBeginValue, []) data of
        None \<Rightarrow> False
      | Some sc \<Rightarrow> scan_eof sc)"


section \<open>The remote service and the library, as the program sees them\<close>

text \<open>
  Go errors are modelled by their \<^verbatim>\<open>Error()\<close> text, the only thing the program
  does with them. A fallible function returns \<open>string + 'a\<close>, \<open>Inl\<close> carrying the
  error text.
\<close>

record Client =
  baseURL :: string
  token :: string

record http_req =
  h_method :: string
  h_url :: string
  h_headers :: "(string \<times> string) list"
  h_body :: "json option"

text \<open>
  What one call of \<^verbatim>\<open>request\<close> gets back before it looks at the status:
  \<open>DoError\<close> is every error it returns as it is (\<^verbatim>\<open>http.NewRequest\<close> rejecting
  the URL, \<^verbatim>\<open>c.http.Do\<close> failing, \<^verbatim>\<open>io.ReadAll\<close> failing), with its text;
  \<open>DoResponse\<close> is a response with its status code and its whole body.
\<close>

datatype http_outcome = DoError string | DoResponse int string

text \<open>
  The remote service is a parameter: a function from its own state \<open>'w\<close> and a request
  to an outcome and its next state. The program's side of the network is that state and
  the log of every exchange attempted so far.
\<close>

type_synonym 'w transport = "'w \<Rightarrow> http_req \<Rightarrow> http_outcome \<times> 'w"

record 'w net =
  world :: 'w
  trace :: "(http_req \<times> http_outcome) list"

record Board =
  board_ID :: string
  board_Name :: string
  board_Description :: string
  board_TicketPrefix :: string

record Task =
  task_ID :: string
  task_TicketNumber :: string
  task_BoardID :: string
  task_Title :: string
  task_Description :: string
  task_Status :: string
  task_Priority :: int
  task_Assignee :: string
  task_Tags :: "string list"

record User =
  user_ID :: string
  user_Name :: string
  user_Email :: string
  user_IsAgent :: bool

record CreateTaskParams =
  ct_BoardID :: string
  ct_Title :: string
  ct_Description :: string
  ct_Assignee :: string
  ct_Status :: string
  ct_Priority :: int

text \<open>A Go pointer field is an option: \<open>None\<close> is \<^verbatim>\<open>nil\<close>.\<close>

record UpdateTaskParams =
  ut_Title :: "string option"
  ut_Description :: "string option"
  ut_Assignee :: "string option"
  ut_Status :: "string option"
  ut_Priority :: "int option"

text \<open>
  The envelope types are declared in a file of the package that is not part of the
  sources at hand; their fields are those the code reads and writes. \<open>rq_Params\<close> is the
  raw text of the \<^verbatim>\<open>params\<close> member (it is handed to \<^verbatim>\<open>json.Unmarshal\<close>
  again), \<open>rq_ID\<close> any JSON value, \<open>JNull\<close> for \<^verbatim>\<open>nil\<close>.
\<close>

record Request =
  rq_JSONRPC :: string
  rq_ID :: json
  rq_Method :: string
  rq_Params :: string

record CallToolParams =
  Name :: string
  Arguments :: "string \<rightharpoonup> json"

text \<open>What \<^verbatim>\<open>callTool\<close> returns as \<^verbatim>\<open>interface{}\<close>: the value of one of
  the client's operations. The map of \<^verbatim>\<open>AddComment\<close> may be \<^verbatim>\<open>nil\<close>.\<close>

datatype tool_value =
    VBoards "Board list"
  | VTasks "Task list"
  | VTask Task
  | VComment "(string \<rightharpoonup> json) option"
  | VUsers "User list"

text \<open>
  The behaviour of the Go library that the program relies on and that its own code does
  not fix: the text of a syntax error, the decoding of a syntactically valid document into
  each target type (which may still fail, with an error text), the pretty-printer, and the
  conversion \<^verbatim>\<open>int(v)\<close> of a \<^verbatim>\<open>float64\<close>. Decoding into the map of
  \<^verbatim>\<open>AddComment\<close> yields the error, if any, together with what the target variable
  holds afterwards, because that caller reads the variable whatever the error.
\<close>

record runtime =
  syntax_error :: "string \<Rightarrow> string"
  dec_Request :: "string \<Rightarrow> string + Request"
  dec_CallToolParams :: "string \<Rightarrow> string + CallToolParams"
  dec_Boards :: "string \<Rightarrow> string + Board list"
  dec_Tasks :: "string \<Rightarrow> string + Task list"
  dec_Task :: "string \<Rightarrow> string + Task"
  dec_Users :: "string \<Rightarrow> string + User list"
  dec_Comment :: "string \<Rightarrow> string option \<times> (string \<rightharpoonup> json) option"
  MarshalIndent :: "tool_value \<Rightarrow> string"
  int_of_float64 :: "rat \<Rightarrow> int"

definition Unmarshal :: "runtime \<Rightarrow> (string \<Rightarrow> string + 'a) \<Rightarrow> string \<Rightarrow> string + 'a" where
  "Unmarshal L dec data = (if checkValid data then dec data else Inl (syntax_error L data))"

text \<open>\<^verbatim>\<open>json.Unmarshal(data, &result)\<close> on a variable that starts as \<^verbatim>\<open>nil\<close>:
  the error and the variable afterwards.\<close>

definition Unmarshal_Comment :: "runtime \<Rightarrow> string \<Rightarrow> string option \<times> (string \<rightharpoonup> json) option" where
  "Unmarshal_Comment L data =
     (if checkValid data then dec_Comment L data else (Some (syntax_error L data), None))"

subsection \<open>Formatting\<close>

definition digit_char :: "nat \<Rightarrow> char" where
  "digit_char n = ''0123456789'' ! (n mod 10)"

fun show_nat :: "nat \<Rightarrow> string" where
  "show_nat n =
     (if n < 10 then [digit_char n]
      else show_nat (n div 10) @ [digit_char (n mod 10)])"

declare show_nat.simps [simp del]

text \<open>The verb \<^verbatim>\<open>%d\<close>.\<close>

definition show_int :: "int \<Rightarrow> string" where
  "show_int i = (if i < 0 then ''-'' @ show_nat (nat (- i)) else show_nat (nat i))"

text \<open>\<^verbatim>\<open>url.QueryEscape\<close> and \<^verbatim>\<open>url.Values\<close> with its \<^verbatim>\<open>Set\<close> and
  \<^verbatim>\<open>Encode\<close> (keys in sorted order). Only \<^verbatim>\<open>Set\<close> is used, so a key has one
  value.\<close>

definition shouldEscape :: "char \<Rightarrow> bool" where
  "shouldEscape c =
     (c \<notin> set ''abcdefghijklmnopqrstuvwxyzABCDEFGHIJKLMNOPQRSTUVWXYZ0123456789-_.~'')"

definition upperhex :: "nat \<Rightarrow> char" where
  "upperhex n = ''0123456789ABCDEF'' ! (n mod 16)"

definition QueryEscape :: "string \<Rightarrow> string" where
  "QueryEscape s =
     concat (map (\<lambda>c. if c = CHR '' '' then ''+''
                      else if shouldEscape c
                        then [CHR ''%'', upperhex (of_char c div 16), upperhex (of_char c mod 16)]
                      else [c]) s)"

type_synonym Values = "(string \<times> string) list"

fun Values_Set :: "Values \<Rightarrow> string \<Rightarrow> string \<Rightarrow> Values" where
  "Values_Set [] k v = [(k, v)]"
| "Values_Set ((k', v') # kvs) k v =
     (if k' = k then (k, v) # kvs else (k', v') # Values_Set kvs k v)"

fun join_amp :: "string list \<Rightarrow> string" where
  "join_amp [] = []"
| "join_amp [x] = x"
| "join_amp (x # y # ys) = x @ ''&'' @ join_amp (y # ys)"

definition Values_Encode :: "Values \<Rightarrow> string" where
  "Values_Encode vs =
     join_amp (map (\<lambda>(k, v). QueryEscape k @ ''='' @ QueryEscape v) (sort_key fst vs))"

subsection \<open>Request bodies\<close>

text \<open>\<^verbatim>\<open>json.Marshal\<close> of the three parameter structs, by their field tags:
  a member tagged \<^verbatim>\<open>omitempty\<close> is left out when the field is the empty string,
  zero or \<^verbatim>\<open>nil\<close>.\<close>

definition omit_str :: "string \<Rightarrow> string \<Rightarrow> (string \<times> json) list" where
  "omit_str k v = (if v = [] then [] else [(k, JStr v)])"

definition omit_int :: "string \<Rightarrow> int \<Rightarrow> (string \<times> json) list" where
  "omit_int k v = (if v = 0 then [] else [(k, JNum (of_int v))])"

definition omit_ptr :: "string \<Rightarrow> ('a \<Rightarrow> json) \<Rightarrow> 'a option \<Rightarrow> (string \<times> json) list" where
  "omit_ptr k f p = (case p of None \<Rightarrow> [] | Some v \<Rightarrow> [(k, f v)])"

definition marshal_CreateTaskParams :: "CreateTaskParams \<Rightarrow> json" where
  "marshal_CreateTaskParams p =
     JObj ([(''boardId'', JStr (ct_BoardID p)), (''title'', JStr (ct_Title p))]
           @ omit_str ''description'' (ct_Description p)
           @ omit_str ''assignee'' (ct_Assignee p)
           @ omit_str ''status'' (ct_Status p)
           @ omit_int ''priority'' (ct_Priority p))"

definition marshal_UpdateTaskParams :: "UpdateTaskParams \<Rightarrow> json" where
  "marshal_UpdateTaskParams p =
     JObj (omit_ptr ''title'' JStr (ut_Title p)
           @ omit_ptr ''description'' JStr (ut_Description p)
           @ omit_ptr ''assignee'' JStr (ut_Assignee p)
           @ omit_ptr ''status'' JStr (ut_Status p)
           @ omit_ptr ''priority'' (\<lambda>i. JNum (of_int i)) (ut_Priority p))"

definition marshal_AddCommentParams :: "string \<Rightarrow> json" where
  "marshal_AddCommentParams text = JObj [(''text'', JStr text)]"

section \<open>The remote-API client\<close>

text \<open>The request that \<^verbatim>\<open>request\<close> builds: \<^verbatim>\<open>http.NewRequest\<close> on the
  base URL followed by the path, then the two headers. The body is the JSON document that
  \<^verbatim>\<open>json.Marshal\<close> makes of the parameter struct (it cannot fail on the three
  structs the client passes), \<open>None\<close> when the caller passes \<^verbatim>\<open>nil\<close>.\<close>

definition NewRequest :: "Client \<Rightarrow> string \<Rightarrow> string \<Rightarrow> json option \<Rightarrow> http_req" where
  "NewRequest c method path body =
     \<lparr>h_method = method, h_url = baseURL c @ path,
      h_headers = [(''Authorization'', ''Bearer '' @ token c),
                   (''Content-Type'', ''application/json'')],
      h_body = body\<rparr>"

definition request ::
  "'w transport \<Rightarrow> Client \<Rightarrow> string \<Rightarrow> string \<Rightarrow> json option \<Rightarrow> 'w net \<Rightarrow> (string + string) \<times> 'w net" where
  "request Do c method path body st =
     (let rq = NewRequest c method path body;
          (out, w') = Do (world st) rq;
          st' = \<lparr>world = w', trace = trace st @ [(rq, out)]\<rparr>
      in case out of
           DoError e \<Rightarrow> (Inl e, st')
         | DoResponse status respBody \<Rightarrow>
             if status \<ge> 400
             then (Inl (''API error '' @ show_int status @ '': '' @ respBody), st')
             else (Inr respBody, st'))"

definition ListBoards ::
  "runtime \<Rightarrow> 'w transport \<Rightarrow> Client \<Rightarrow> 'w net \<Rightarrow> (string + Board list) \<times> 'w net" where
  "ListBoards L Do c st =
     (case request Do c ''GET'' ''/api/boards'' None st of
        (Inl e, st') \<Rightarrow> (Inl e, st')
      | (Inr data, st') \<Rightarrow>
          (case Unmarshal L (dec_Boards L) data of
             Inl e \<Rightarrow> (Inl e, st')
           | Inr boards \<Rightarrow> (Inr boards, st')))"

definition ListTasks_params :: "string \<Rightarrow> string \<Rightarrow> string \<Rightarrow> Values" where
  "ListTasks_params boardID status assignee =
     (let params = [];
          params = (if boardID \<noteq> [] then Values_Set params ''boardId'' boardID else params);
          params = (if status \<noteq> [] then Values_Set params ''status'' status else params);
          params = (if assignee \<noteq> [] then Values_Set params ''assignee'' assignee else params)
      in params)"

definition ListTasks_path :: "string \<Rightarrow> string \<Rightarrow> string \<Rightarrow> string" where
  "ListTasks_path boardID status assignee =
     (let params = ListTasks_params boardID status assignee
      in if length params > 0 then ''/api/tasks'' @ ''?'' @ Values_Encode params
         else ''/api/tasks'')"

definition ListTasks ::
  "runtime \<Rightarrow> 'w transport \<Rightarrow> Client \<Rightarrow> string \<Rightarrow> string \<Rightarrow> string \<Rightarrow> 'w net
     \<Rightarrow> (string + Task list) \<times> 'w net" where
  "ListTasks L Do c boardID status assignee st =
     (case request Do c ''GET'' (ListTasks_path boardID status assignee) None st of
        (Inl e, st') \<Rightarrow> (Inl e, st')
      | (Inr data, st') \<Rightarrow>
          (case Unmarshal L (dec_Tasks L) data of
             Inl e \<Rightarrow> (Inl e, st')
           | Inr tasks \<Rightarrow> (Inr tasks, st')))"

definition GetTask ::
  "runtime \<Rightarrow> 'w transport \<Rightarrow> Client \<Rightarrow> string \<Rightarrow> 'w net \<Rightarrow> (string + Task) \<times> 'w net" where
  "GetTask L Do c idOrTicket st =
     (let fall_back = (\<lambda>st.
            case request Do c ''GET'' (''/api/tasks/'' @ idOrTicket) None st of
              (Inl e, st') \<Rightarrow> (Inl e, st')
            | (Inr data, st') \<Rightarrow>
                (case Unmarshal L (dec_Task L) data of
                   Inl e \<Rightarrow> (Inl e, st')
                 | Inr task \<Rightarrow> (Inr task, st')))
      in if CHR ''-'' \<in> set idOrTicket then
           (case request Do c ''GET'' (''/api/tasks/by-ticket/'' @ idOrTicket) None st of
              (Inl e, st1) \<Rightarrow> fall_back st1
            | (Inr data, st1) \<Rightarrow>
                (case Unmarshal L (dec_Task L) data of
                   Inl e \<Rightarrow> fall_back st1
                 | Inr task \<Rightarrow> (Inr task, st1)))
         else fall_back st)"

definition CreateTask ::
  "runtime \<Rightarrow> 'w transport \<Rightarrow> Client \<Rightarrow> CreateTaskParams \<Rightarrow> 'w net \<Rightarrow> (string + Task) \<times> 'w net" where
  "CreateTask L Do c params st =
     (case request Do c ''POST'' ''/api/tasks'' (Some (marshal_CreateTaskParams params)) st of
        (Inl e, st') \<Rightarrow> (Inl e, st')
      | (Inr data, st') \<Rightarrow>
          (case Unmarshal L (dec_Task L) data of
             Inl e \<Rightarrow> (Inl e, st')
           | Inr task \<Rightarrow> (Inr task, st')))"

definition UpdateTask ::
  "runtime \<Rightarrow> 'w transport \<Rightarrow> Client \<Rightarrow> string \<Rightarrow> UpdateTaskParams \<Rightarrow> 'w net
     \<Rightarrow> (string + Task) \<times> 'w net" where
  "UpdateTask L Do c idOrTicket params st =
     (case GetTask L Do c idOrTicket st of
        (Inl e, st1) \<Rightarrow> (Inl e, st1)
      | (Inr task, st1) \<Rightarrow>
          (case request Do c ''PUT'' (''/api/tasks/'' @ task_ID task)
                  (Some (marshal_UpdateTaskParams params)) st1 of
             (Inl e, st2) \<Rightarrow> (Inl e, st2)
           | (Inr _, st2) \<Rightarrow> GetTask L Do c (task_ID task) st2))"

definition AddComment ::
  "runtime \<Rightarrow> 'w transport \<Rightarrow> Client \<Rightarrow> string \<Rightarrow> string \<Rightarrow> 'w net
     \<Rightarrow> (string + (string \<rightharpoonup> json) option) \<times> 'w net" where
  "AddComment L Do c idOrTicket text st =
     (case GetTask L Do c idOrTicket st of
        (Inl e, st1) \<Rightarrow> (Inl e, st1)
      | (Inr task, st1) \<Rightarrow>
          (case request Do c ''POST'' (''/api/tasks/'' @ task_ID task @ ''/comments'')
                  (Some (marshal_AddCommentParams text)) st1 of
             (Inl e, st2) \<Rightarrow> (Inl e, st2)
           | (Inr data, st2) \<Rightarrow> (Inr (snd (Unmarshal_Comment L data)), st2)))"

definition ListUsers ::
  "runtime \<Rightarrow> 'w transport \<Rightarrow> Client \<Rightarrow> 'w net \<Rightarrow> (string + User list) \<times> 'w net" where
  "ListUsers L Do c st =
     (case request Do c ''GET'' ''/api/users'' None st of
        (Inl e, st') \<Rightarrow> (Inl e, st')
      | (Inr data, st') \<Rightarrow>
          (case Unmarshal L (dec_Users L) data of
             Inl e \<Rightarrow> (Inl e, st')
           | Inr users \<Rightarrow> (Inr users, st')))"


text \<open>\<^verbatim>\<open>NewClientFromEnv\<close>: the environment is a function from variable names to
  values (empty when unset), \<open>loaded\<close> is what \<^verbatim>\<open>loadConfig\<close> returns.\<close>

record Config =
  cfg_URL :: string
  cfg_Token :: string

definition TrimSuffix :: "string \<Rightarrow> string \<Rightarrow> string" where
  "TrimSuffix s suffix =
     (if length suffix \<le> length s \<and> drop (length s - length suffix) s = suffix
      then take (length s - length suffix) s else s)"

definition NewClientFromEnv :: "(string \<Rightarrow> string) \<Rightarrow> string + Config \<Rightarrow> string + Client" where
  "NewClientFromEnv getenv loaded =
     (let baseURL = getenv ''TASKBOARD_URL'';
          token = getenv ''TASKBOARD_TOKEN'';
          (baseURL, token) =
            (if baseURL = [] \<or> token = [] then
               (case loaded of
                  Inr cfg \<Rightarrow> (if baseURL = [] then cfg_URL cfg else baseURL,
                              if token = [] then cfg_Token cfg else token)
                | Inl _ \<Rightarrow> (baseURL, token))
             else (baseURL, token))
      in if baseURL = [] then Inl ''TASKBOARD_URL not set (env or config)''
         else if token = [] then Inl ''TASKBOARD_TOKEN not set (env or config)''
         else Inr \<lparr>baseURL = TrimSuffix baseURL ''/'', token = token\<rparr>)"

section \<open>The dispatcher\<close>

record Property =
  pr_Type :: string
  pr_Description :: string
  pr_Enum :: "string list"

record InputSchema =
  is_Type :: string
  is_Properties :: "(string \<times> Property) list"
  is_Required :: "string list"

record Tool =
  tool_Name :: string
  tool_Description :: string
  tool_InputSchema :: InputSchema

record Server =
  client :: Client
  tools :: "Tool list"

record Error =
  err_Code :: int
  err_Message :: string
  err_Data :: string

record ContentBlock =
  cb_Type :: string
  cb_Text :: string

record CallToolResult =
  Content :: "ContentBlock list"
  IsError :: bool

record ServerInfo =
  si_Name :: string
  si_Version :: string

record InitializeResult =
  ir_ProtocolVersion :: string
  ir_Capabilities_Tools :: "unit option"
  ir_ServerInfo :: ServerInfo

datatype result =
    ResInitialize InitializeResult
  | ToolsListResult "Tool list"
  | ResCallTool CallToolResult

record Response =
  rs_JSONRPC :: string
  rs_ID :: json
  rs_Result :: "result option"
  rs_Error :: "Error option"

definition ProtocolVersion :: string where "ProtocolVersion = ''2024-11-05''"
definition ServerName :: string where "ServerName = ''taskboard-mcp''"
definition ServerVersion :: string where "ServerVersion = ''0.1.0''"

definition mk_Property :: "string \<Rightarrow> string \<Rightarrow> Property" where
  "mk_Property ty descr = \<lparr>pr_Type = ty, pr_Description = descr, pr_Enum = []\<rparr>"

definition registerTools :: "Server \<Rightarrow> Server" where
  "registerTools s = s\<lparr>tools := [
     \<lparr>tool_Name = ''list_boards'', tool_Description = ''List all boards'',
      tool_InputSchema = \<lparr>is_Type = ''object'', is_Properties = [], is_Required = []\<rparr>\<rparr>,
     \<lparr>tool_Name = ''list_tasks'', tool_Description = ''List tasks with optional filters'',
      tool_InputSchema = \<lparr>is_Type = ''object'',
        is_Properties = [
          (''board_id'', mk_Property ''string'' ''Filter by board ID''),
          (''status'', \<lparr>pr_Type = ''string'', pr_Description = ''Filter by status'',
                        pr_Enum = [''backlog'', ''todo'', ''in-progress'', ''in-qa'', ''completed'', ''rfp'', ''closed'']\<rparr>),
          (''assignee'', mk_Property ''string'' ''Filter by assignee email'')],
        is_Required = []\<rparr>\<rparr>,
     \<lparr>tool_Name = ''get_task'',
      tool_Description = ''Get a task by ID or ticket number (e.g., MNS-42)'',
      tool_InputSchema = \<lparr>is_Type = ''object'',
        is_Properties = [(''id'', mk_Property ''string'' ''Task ID or ticket number'')],
        is_Required = [''id'']\<rparr>\<rparr>,
     \<lparr>tool_Name = ''create_task'', tool_Description = ''Create a new task'',
      tool_InputSchema = \<lparr>is_Type = ''object'',
        is_Properties = [
          (''board_id'', mk_Property ''string'' ''Board ID''),
          (''title'', mk_Property ''string'' ''Task title''),
          (''description'', mk_Property ''string'' ''Task description''),
          (''assignee'', mk_Property ''string'' ''Assignee email''),
          (''priority'', mk_Property ''integer'' ''Priority (1=highest, 5=lowest)''),
          (''status'', \<lparr>pr_Type = ''string'', pr_Description = ''Initial status'',
                        pr_Enum = [''backlog'', ''todo'', ''in-progress'', ''in-qa'', ''completed'', ''rfp'', ''closed'']\<rparr>)],
        is_Required = [''board_id'', ''title'']\<rparr>\<rparr>,
     \<lparr>tool_Name = ''update_task'', tool_Description = ''Update a task'',
      tool_InputSchema = \<lparr>is_Type = ''object'',
        is_Properties = [
          (''id'', mk_Property ''string'' ''Task ID or ticket number''),
          (''title'', mk_Property ''string'' ''New title''),
          (''description'', mk_Property ''string'' ''New description''),
          (''assignee'', mk_Property ''string'' ''New assignee email''),
          (''status'', \<lparr>pr_Type = ''string'', pr_Description = ''New status'',
                        pr_Enum = [''backlog'', ''todo'', ''in-progress'', ''in-qa'', ''completed'', ''rfp'', ''closed'']\<rparr>),
          (''priority'', mk_Property ''integer'' ''New priority (1=highest, 5=lowest)'')],
        is_Required = [''id'']\<rparr>\<rparr>,
     \<lparr>tool_Name = ''add_comment'', tool_Description = ''Add a comment to a task'',
      tool_InputSchema = \<lparr>is_Type = ''object'',
        is_Properties = [
          (''task_id'', mk_Property ''string'' ''Task ID or ticket number''),
          (''text'', mk_Property ''string'' ''Comment text'')],
        is_Required = [''task_id'', ''text'']\<rparr>\<rparr>,
     \<lparr>tool_Name = ''list_users'',
      tool_Description = ''List all team members (for task assignment)'',
      tool_InputSchema = \<lparr>is_Type = ''object'', is_Properties = [], is_Required = []\<rparr>\<rparr>
   ]\<rparr>"

definition NewServer :: "Client \<Rightarrow> Server" where
  "NewServer c = registerTools \<lparr>client = c, tools = []\<rparr>"

text \<open>The type assertions \<^verbatim>\<open>args[key].(string)\<close> and \<^verbatim>\<open>args[key].(float64)\<close>
  in their two-result form: the value (the zero value when the assertion fails) and
  \<^verbatim>\<open>ok\<close>. A key that is missing reads as \<^verbatim>\<open>nil\<close>, as JSON null does.\<close>

definition assert_string :: "json option \<Rightarrow> string \<times> bool" where
  "assert_string x = (case x of Some (JStr v) \<Rightarrow> (v, True) | _ \<Rightarrow> ([], False))"

definition assert_float64 :: "json option \<Rightarrow> rat \<times> bool" where
  "assert_float64 x = (case x of Some (JNum v) \<Rightarrow> (v, True) | _ \<Rightarrow> (0, False))"

definition getString :: "(string \<rightharpoonup> json) \<Rightarrow> string \<Rightarrow> string" where
  "getString args key = fst (assert_string (args key))"

definition getStringPtr :: "(string \<rightharpoonup> json) \<Rightarrow> string \<Rightarrow> string option" where
  "getStringPtr args key =
     (let (v, ok) = assert_string (args key) in if ok then Some v else None)"

definition getInt :: "runtime \<Rightarrow> (string \<rightharpoonup> json) \<Rightarrow> string \<Rightarrow> int" where
  "getInt L args key =
     (let (v, ok) = assert_float64 (args key) in if ok then int_of_float64 L v else 0)"

definition getIntPtr :: "runtime \<Rightarrow> (string \<rightharpoonup> json) \<Rightarrow> string \<Rightarrow> int option" where
  "getIntPtr L args key =
     (let (v, ok) = assert_float64 (args key) in if ok then Some (int_of_float64 L v) else None)"

text \<open>The conversion of an operation's typed result to \<^verbatim>\<open>(interface{}, error)\<close>.\<close>

definition as_value :: "('a \<Rightarrow> tool_value) \<Rightarrow> (string + 'a) \<times> 'w net \<Rightarrow> (string + tool_value) \<times> 'w net" where
  "as_value f r = (case r of (Inl e, st) \<Rightarrow> (Inl e, st) | (Inr v, st) \<Rightarrow> (Inr (f v), st))"

definition callTool ::
  "runtime \<Rightarrow> 'w transport \<Rightarrow> Server \<Rightarrow> string \<Rightarrow> (string \<rightharpoonup> json) \<Rightarrow> 'w net
     \<Rightarrow> (string + tool_value) \<times> 'w net" where
  "callTool L Do s name args st =
     (if name = ''list_boards'' then as_value VBoards (ListBoards L Do (client s) st)
      else if name = ''list_tasks'' then
        (let boardID = fst (assert_string (args ''board_id''));
             status = fst (assert_string (args ''status''));
             assignee = fst (assert_string (args ''assignee''))
         in as_value VTasks (ListTasks L Do (client s) boardID status assignee st))
      else if name = ''get_task'' then
        (let (id, ok) = assert_string (args ''id'')
         in if \<not> ok \<or> id = [] then (Inl ''id is required'', st)
            else as_value VTask (GetTask L Do (client s) id st))
      else if name = ''create_task'' then
        (let boardID = fst (assert_string (args ''board_id''));
             title = fst (assert_string (args ''title''))
         in if boardID = [] \<or> title = [] then (Inl ''board_id and title are required'', st)
            else as_value VTask (CreateTask L Do (client s)
                   \<lparr>ct_BoardID = boardID, ct_Title = title,
                    ct_Description = getString args ''description'',
                    ct_Assignee = getString args ''assignee'',
                    ct_Status = getString args ''status'',
                    ct_Priority = getInt L args ''priority''\<rparr> st))
      else if name = ''update_task'' then
        (let id = fst (assert_string (args ''id''))
         in if id = [] then (Inl ''id is required'', st)
            else as_value VTask (UpdateTask L Do (client s) id
                   \<lparr>ut_Title = getStringPtr args ''title'',
                    ut_Description = getStringPtr args ''description'',
                    ut_Assignee = getStringPtr args ''assignee'',
                    ut_Status = getStringPtr args ''status'',
                    ut_Priority = getIntPtr L args ''priority''\<rparr> st))
      else if name = ''add_comment'' then
        (let taskID = fst (assert_string (args ''task_id''));
             text = fst (assert_string (args ''text''))
         in if taskID = [] \<or> text = [] then (Inl ''task_id and text are required'', st)
            else as_value VComment (AddComment L Do (client s) taskID text st))
      else if name = ''list_users'' then as_value VUsers (ListUsers L Do (client s) st)
      else (Inl (''unknown tool: '' @ name), st))"

definition handleInitialize :: "Server \<Rightarrow> Request \<Rightarrow> Response" where
  "handleInitialize s req =
     \<lparr>rs_JSONRPC = ''2.0'', rs_ID = rq_ID req,
      rs_Result = Some (ResInitialize
        \<lparr>ir_ProtocolVersion = ProtocolVersion,
         ir_Capabilities_Tools = Some (),
         ir_ServerInfo = \<lparr>si_Name = ServerName, si_Version = ServerVersion\<rparr>\<rparr>),
      rs_Error = None\<rparr>"

definition handleToolsList :: "Server \<Rightarrow> Request \<Rightarrow> Response" where
  "handleToolsList s req =
     \<lparr>rs_JSONRPC = ''2.0'', rs_ID = rq_ID req,
      rs_Result = Some (ToolsListResult (tools s)), rs_Error = None\<rparr>"

definition handleToolsCall ::
  "runtime \<Rightarrow> 'w transport \<Rightarrow> Server \<Rightarrow> Request \<Rightarrow> 'w net \<Rightarrow> Response \<times> 'w net" where
  "handleToolsCall L Do s req st =
     (case Unmarshal L (dec_CallToolParams L) (rq_Params req) of
        Inl e \<Rightarrow>
          (\<lparr>rs_JSONRPC = ''2.0'', rs_ID = rq_ID req, rs_Result = None,
            rs_Error = Some \<lparr>err_Code = - 32602, err_Message = ''Invalid params'',
                             err_Data = []\<rparr>\<rparr>, st)
      | Inr params \<Rightarrow>
          (case callTool L Do s (Name params) (Arguments params) st of
             (Inl err, st') \<Rightarrow>
               (\<lparr>rs_JSONRPC = ''2.0'', rs_ID = rq_ID req,
                 rs_Result = Some (ResCallTool
                   \<lparr>Content = [\<lparr>cb_Type = ''text'', cb_Text = ''Error: '' @ err\<rparr>],
                    IsError = True\<rparr>),
                 rs_Error = None\<rparr>, st')
           | (Inr res, st') \<Rightarrow>
               (\<lparr>rs_JSONRPC = ''2.0'', rs_ID = rq_ID req,
                 rs_Result = Some (ResCallTool
                   \<lparr>Content = [\<lparr>cb_Type = ''text'', cb_Text = MarshalIndent L res\<rparr>],
                    IsError = False\<rparr>),
                 rs_Error = None\<rparr>, st')))"

definition Handle ::
  "runtime \<Rightarrow> 'w transport \<Rightarrow> Server \<Rightarrow> Request \<Rightarrow> 'w net \<Rightarrow> Response \<times> 'w net" where
  "Handle L Do s req st =
     (if rq_Method req = ''initialize'' then (handleInitialize s req, st)
      else if rq_Method req = ''initialized'' then
        (\<lparr>rs_JSONRPC = ''2.0'', rs_ID = rq_ID req, rs_Result = None, rs_Error = None\<rparr>, st)
      else if rq_Method req = ''tools/list'' then (handleToolsList s req, st)
      else if rq_Method req = ''tools/call'' then handleToolsCall L Do s req st
      else
        (\<lparr>rs_JSONRPC = ''2.0'', rs_ID = rq_ID req, rs_Result = None,
          rs_Error = Some \<lparr>err_Code = - 32601, err_Message = ''Method not found'',
                           err_Data = []\<rparr>\<rparr>, st))"

section \<open>The transport loop\<close>

text \<open>
  Standard output is the list of responses printed, one per line, in order.
  \<^verbatim>\<open>sendError\<close> prints the response it builds.
\<close>

definition sendError :: "json \<Rightarrow> int \<Rightarrow> string \<Rightarrow> string \<Rightarrow> Response" where
  "sendError ident code message data =
     \<lparr>rs_JSONRPC = ''2.0'', rs_ID = ident, rs_Result = None,
      rs_Error = Some \<lparr>err_Code = code, err_Message = message, err_Data = data\<rparr>\<rparr>"

text \<open>The body of \<^verbatim>\<open>for scanner.Scan()\<close>, over the lines the scanner delivers.\<close>

fun main_loop ::
  "runtime \<Rightarrow> 'w transport \<Rightarrow> Server \<Rightarrow> string list \<Rightarrow> 'w net \<Rightarrow> Response list \<times> 'w net" where
  "main_loop L Do server [] st = ([], st)"
| "main_loop L Do server (line # rest) st =
     (case Unmarshal L (dec_Request L) line of
        Inl err \<Rightarrow>
          (let (out, st') = main_loop L Do server rest st
           in (sendError JNull (- 32700) ''Parse error'' err # out, st'))
      | Inr req \<Rightarrow>
          (let (response, st1) = Handle L Do server req st;
               (out, st2) = main_loop L Do server rest st1
           in (response # out, st2)))"

text \<open>
  Standard input as \<^verbatim>\<open>os.Stdin\<close> delivers it: the bytes read before the stream
  ends, and the error it ends with, \<open>None\<close> for the end of file (which the file reports on
  a read of its own, never together with data).
\<close>

record stdin =
  bytes :: string
  read_Err :: "string option"

text \<open>
  \<^verbatim>\<open>bufio.NewScanner(os.Stdin)\<close>: the split function is \<^verbatim>\<open>ScanLines\<close> and the
  buffer grows to \<^verbatim>\<open>MaxScanTokenSize\<close> bytes and no further, since \<^verbatim>\<open>main\<close>
  never calls \<^verbatim>\<open>Buffer\<close>. A line is handed over, without its line feed and without a
  carriage return at its end, once the line feed is in the buffer; data left at the end of
  the input is the last line. When the buffer is full and holds no line feed, \<^verbatim>\<open>Scan\<close>
  returns false with \<^verbatim>\<open>ErrTooLong\<close>. \<open>scanner_Scan rerr buf input\<close> gives the lines
  that the successive calls of \<^verbatim>\<open>Scan\<close> deliver and the value of
  \<^verbatim>\<open>scanner.Err()\<close> after the last one, where \<open>buf\<close> is the part of the current
  line already in the buffer and \<open>input\<close> the bytes not yet read.
\<close>

definition MaxScanTokenSize :: nat where
  "MaxScanTokenSize = 64 * 1024"

definition ErrTooLong :: string where
  "ErrTooLong = ''bufio.Scanner: token too long''"

definition dropCR :: "string \<Rightarrow> string" where
  "dropCR data = (if data \<noteq> [] \<and> last data = CHR 0x0D then butlast data else data)"

fun scanner_Scan :: "string option \<Rightarrow> string \<Rightarrow> string \<Rightarrow> string list \<times> string option" where
  "scanner_Scan rerr buf [] =
     (if buf = [] then ([], rerr)
      else if length buf < MaxScanTokenSize then ([dropCR buf], rerr)
      else ([], Some ErrTooLong))"
| "scanner_Scan rerr buf (c # cs) =
     (if MaxScanTokenSize \<le> length buf then ([], Some ErrTooLong)
      else if c = CHR 0x0A then
        (let (lines, err) = scanner_Scan rerr [] cs in (dropCR buf # lines, err))
      else scanner_Scan rerr (buf @ [c]) cs)"

text \<open>The process ends with status 0 or through \<^verbatim>\<open>log.Fatalf\<close>.\<close>

datatype exit = Exit0 | Fatal string

definition main ::
  "runtime \<Rightarrow> 'w transport \<Rightarrow> string + Client \<Rightarrow> stdin \<Rightarrow> 'w net
     \<Rightarrow> Response list \<times> exit \<times> 'w net" where
  "main L Do from_env input st =
     (case from_env of
        Inl err \<Rightarrow> ([], Fatal (''Failed to initialize TaskBoard client: '' @ err), st)
      | Inr c \<Rightarrow>
          (let (lines, err) = scanner_Scan (read_Err input) [] (bytes input);
               (out, st') = main_loop L Do (NewServer c) lines st
           in (out,
               (case err of
                  None \<Rightarrow> Exit0
                | Some e \<Rightarrow> Fatal (''Error reading stdin: '' @ e)),
               st')))"


section \<open>Notions used to state the properties\<close>

text \<open>
  The two lookups that the description of ticket resolution names: the lookup by ticket
  number and the lookup by raw identifier. Each is one \<^verbatim>\<open>GET\<close> on its endpoint
  followed by the decoding of the body as a task; it fails when the request fails (an error
  of the transport or a status of 400 or more) or when the body does not decode.
\<close>

definition lookup ::
  "runtime \<Rightarrow> 'w transport \<Rightarrow> Client \<Rightarrow> string \<Rightarrow> 'w net \<Rightarrow> (string + Task) \<times> 'w net" where
  "lookup L Do c path st =
     (case request Do c ''GET'' path None st of
        (Inl e, st') \<Rightarrow> (Inl e, st')
      | (Inr data, st') \<Rightarrow>
          (case Unmarshal L (dec_Task L) data of
             Inl e \<Rightarrow> (Inl e, st')
           | Inr task \<Rightarrow> (Inr task, st')))"

definition lookup_by_ticket ::
  "runtime \<Rightarrow> 'w transport \<Rightarrow> Client \<Rightarrow> string \<Rightarrow> 'w net \<Rightarrow> (string + Task) \<times> 'w net" where
  "lookup_by_ticket L Do c ident st = lookup L Do c (''/api/tasks/by-ticket/'' @ ident) st"

definition lookup_by_id ::
  "runtime \<Rightarrow> 'w transport \<Rightarrow> Client \<Rightarrow> string \<Rightarrow> 'w net \<Rightarrow> (string + Task) \<times> 'w net" where
  "lookup_by_id L Do c ident st = lookup L Do c (''/api/tasks/'' @ ident) st"

text \<open>
  One exchange seen from the program: the outcome the service gives to a request in a state
  of the network, the state afterwards, and the result that \<^verbatim>\<open>request\<close> followed
  by a decoding \<open>dec\<close> of the body makes of an outcome. \<open>new_exchanges st st'\<close> are the
  exchanges logged between two states.
\<close>

definition outcome :: "'w transport \<Rightarrow> http_req \<Rightarrow> 'w net \<Rightarrow> http_outcome" where
  "outcome Do rq st = fst (Do (world st) rq)"

definition net_after :: "'w transport \<Rightarrow> http_req \<Rightarrow> 'w net \<Rightarrow> 'w net" where
  "net_after Do rq st =
     \<lparr>world = snd (Do (world st) rq), trace = trace st @ [(rq, fst (Do (world st) rq))]\<rparr>"

definition of_outcome :: "(string \<Rightarrow> string + 'a) \<Rightarrow> http_outcome \<Rightarrow> string + 'a" where
  "of_outcome dec out =
     (case out of
        DoError e \<Rightarrow> Inl e
      | DoResponse status body \<Rightarrow>
          if 400 \<le> status then Inl (''API error '' @ show_int status @ '': '' @ body)
          else dec body)"

definition new_exchanges :: "'w net \<Rightarrow> 'w net \<Rightarrow> (http_req \<times> http_outcome) list" where
  "new_exchanges st st' = drop (length (trace st)) (trace st')"

text \<open>
  \<open>surfaced out r\<close>: when the outcome is a response with a status of 400 or more, the
  result \<open>r\<close> is the failure that carries the status and the body. \<open>reaches_api st res\<close>:
  the call that gave \<open>res\<close> from the state \<open>st\<close> has only added to the log, has added at
  least one exchange, and its result surfaces the outcome of the last one.
\<close>

definition surfaced :: "http_outcome \<Rightarrow> string + 'a \<Rightarrow> bool" where
  "surfaced out r =
     (case out of
        DoError e \<Rightarrow> True
      | DoResponse status body \<Rightarrow>
          if 400 \<le> status then r = Inl (''API error '' @ show_int status @ '': '' @ body)
          else True)"

definition reaches_api :: "'w net \<Rightarrow> (string + 'a) \<times> 'w net \<Rightarrow> bool" where
  "reaches_api st res =
     (trace (snd res) = trace st @ new_exchanges st (snd res) \<and>
      new_exchanges st (snd res) \<noteq> [] \<and>
      surfaced (snd (last (trace (snd res)))) (fst res))"

text \<open>
  The exchanges a call carries on from. A ticket lookup is a \<^verbatim>\<open>GET\<close> on the ticket
  endpoint of the client's service; \<open>api_error out\<close> says that the outcome is a response with
  a status of 400 or more; \<open>tolerated c ex\<close> says that among the exchanges \<open>ex\<close> only ticket
  lookups got such a response.
\<close>

definition ticket_lookup :: "Client \<Rightarrow> http_req \<Rightarrow> bool" where
  "ticket_lookup c rq =
     (h_method rq = ''GET'' \<and>
      take (length (baseURL c @ ''/api/tasks/by-ticket/'')) (h_url rq) =
        baseURL c @ ''/api/tasks/by-ticket/'')"

definition api_error :: "http_outcome \<Rightarrow> bool" where
  "api_error out = (case out of DoError e \<Rightarrow> False | DoResponse status body \<Rightarrow> 400 \<le> status)"

definition tolerated :: "Client \<Rightarrow> (http_req \<times> http_outcome) list \<Rightarrow> bool" where
  "tolerated c ex = list_all (\<lambda>x. api_error (snd x) \<longrightarrow> ticket_lookup c (fst x)) ex"

text \<open>\<open>terminated ls\<close> is the input made of the lines \<open>ls\<close>, each followed by a line feed.\<close>

definition terminated :: "string list \<Rightarrow> string" where
  "terminated ls = concat (map (\<lambda>l. l @ [CHR 0x0A]) ls)"

text \<open>
  What the optional arguments of a call should contribute, read off the argument mapping:
  a filter of \<open>list_tasks\<close> appears in the query only for an argument that is a non-empty
  string, and a field appears in the body of \<open>update_task\<close> only for an argument supplied
  with the JSON type of the field.
\<close>

definition filter_param :: "(string \<rightharpoonup> json) \<Rightarrow> string \<Rightarrow> string \<Rightarrow> (string \<times> string) list" where
  "filter_param args arg key =
     (case args arg of Some (JStr v) \<Rightarrow> if v = [] then [] else [(key, v)] | _ \<Rightarrow> [])"

definition list_filters :: "(string \<rightharpoonup> json) \<Rightarrow> (string \<times> string) list" where
  "list_filters args =
     filter_param args ''board_id'' ''boardId'' @ filter_param args ''status'' ''status''
       @ filter_param args ''assignee'' ''assignee''"

definition optional_string :: "(string \<rightharpoonup> json) \<Rightarrow> string \<Rightarrow> (string \<times> json) list" where
  "optional_string args k = (case args k of Some (JStr v) \<Rightarrow> [(k, JStr v)] | _ \<Rightarrow> [])"

definition optional_int :: "runtime \<Rightarrow> (string \<rightharpoonup> json) \<Rightarrow> string \<Rightarrow> (string \<times> json) list" where
  "optional_int L args k =
     (case args k of
        Some (JNum v) \<Rightarrow> [(k, JNum (of_int (int_of_float64 L v)))]
      | _ \<Rightarrow> [])"

definition supplied_fields :: "runtime \<Rightarrow> (string \<rightharpoonup> json) \<Rightarrow> (string \<times> json) list" where
  "supplied_fields L args =
     optional_string args ''title'' @ optional_string args ''description''
       @ optional_string args ''assignee'' @ optional_string args ''status''
       @ optional_int L args ''priority''"

text \<open>A tool-level error: a response without an error object whose result is one text
  block, flagged as an error.\<close>

definition tool_error :: "json \<Rightarrow> string \<Rightarrow> Response" where
  "tool_error ident text =
     \<lparr>rs_JSONRPC = ''2.0'', rs_ID = ident,
      rs_Result = Some (ResCallTool
        \<lparr>Content = [\<lparr>cb_Type = ''text'', cb_Text = text\<rparr>], IsError = True\<rparr>),
      rs_Error = None\<rparr>"

text \<open>The response to a line that does not parse.\<close>

definition parse_error :: "string \<Rightarrow> Response" where
  "parse_error data =
     \<lparr>rs_JSONRPC = ''2.0'', rs_ID = JNull, rs_Result = None,
      rs_Error = Some \<lparr>err_Code = - 32700, err_Message = ''Parse error'', err_Data = data\<rparr>\<rparr>"

text \<open>An argument that is a string and not the empty one. Its negation covers a missing
  argument, the empty string and a value of another JSON type.\<close>

definition nonempty_string :: "json option \<Rightarrow> bool" where
  "nonempty_string x = (case x of Some (JStr v) \<Rightarrow> v \<noteq> [] | _ \<Rightarrow> False)"

definition registered_names :: "string list" where
  "registered_names =
     [''list_boards'', ''list_tasks'', ''get_task'', ''create_task'', ''update_task'',
      ''add_comment'', ''list_users'']"

subsection \<open>A sample deployment\<close>

text \<open>
  A small remote service, a client configuration and a library behaviour on a handful of
  documents, on which the properties below are instantiated. The service knows one task,
  \<open>t1\<close> with ticket MNS-42; its ticket endpoint answers 404, it accepts a comment with
  a body that is not JSON, and it answers 500 to everything else.
\<close>

definition sample_client :: Client where
  "sample_client = \<lparr>baseURL = ''https://board.example'', token = ''secret''\<rparr>"

definition sample_task :: Task where
  "sample_task =
     \<lparr>task_ID = ''t1'', task_TicketNumber = ''MNS-42'', task_BoardID = ''b1'',
      task_Title = ''Write report'', task_Description = [], task_Status = ''completed'',
      task_Priority = 2, task_Assignee = [], task_Tags = []\<rparr>"

definition task_doc :: string where
  \<open>task_doc = ''{"_id":"t1","ticketNumber":"MNS-42","status":"completed"}''\<close>

definition sample_service :: "unit transport" where
  "sample_service w rq =
     (if h_method rq = ''GET'' \<and> h_url rq = ''https://board.example/api/tasks/by-ticket/MNS-42''
        then (DoResponse 404 ''not found'', w)
      else if h_method rq = ''GET'' \<and> h_url rq = ''https://board.example/api/tasks/MNS-42''
        then (DoResponse 200 task_doc, w)
      else if h_method rq = ''GET'' \<and> h_url rq = ''https://board.example/api/tasks/t1''
        then (DoResponse 200 task_doc, w)
      else if h_method rq = ''PUT'' \<and> h_url rq = ''https://board.example/api/tasks/t1''
        then (DoResponse 200 ''{}'', w)
      else if h_method rq = ''POST'' \<and> h_url rq = ''https://board.example/api/tasks/t1/comments''
        then (DoResponse 200 ''accepted'', w)
      else (DoResponse 500 ''internal error'', w))"

text \<open>A second service, whose ticket endpoint is out of order: it knows the task under the
  identifier \<open>MNS-42\<close> and answers 500 to everything else.\<close>

definition outage_service :: "unit transport" where
  "outage_service w rq =
     (if h_method rq = ''GET'' \<and> h_url rq = ''https://board.example/api/tasks/MNS-42''
        then (DoResponse 200 task_doc, w)
      else (DoResponse 500 ''internal error'', w))"

definition sample_update :: UpdateTaskParams where
  "sample_update =
     \<lparr>ut_Title = None, ut_Description = None, ut_Assignee = None,
      ut_Status = Some ''completed'', ut_Priority = None\<rparr>"

definition st0 :: "unit net" where
  "st0 = \<lparr>world = (), trace = []\<rparr>"

definition line_tools_list :: string where
  \<open>line_tools_list = ''{"jsonrpc":"2.0","id":1,"method":"tools/list"}''\<close>

definition line_call_boards :: string where
  \<open>line_call_boards = ''{"jsonrpc":"2.0","id":2,"method":"tools/call","params":{"name":"list_boards"}}''\<close>

definition req_tools_list :: Request where
  "req_tools_list = \<lparr>rq_JSONRPC = ''2.0'', rq_ID = JNum 1, rq_Method = ''tools/list'', rq_Params = []\<rparr>"

definition doc_unknown :: string where
  \<open>doc_unknown = ''{"name":"frobnicate","arguments":{}}''\<close>

definition doc_create :: string where
  \<open>doc_create = ''{"name":"create_task","arguments":{"title":"Write report"}}''\<close>

definition doc_boards :: string where
  \<open>doc_boards = ''{"name":"list_boards"}''\<close>

definition doc_comment :: string where
  \<open>doc_comment = ''{"name":"add_comment","arguments":{"task_id":"t1","text":"hello"}}''\<close>

definition doc_update :: string where
  \<open>doc_update = ''{"name":"update_task","arguments":{"id":"MNS-42","status":"completed","priority":"high"}}''\<close>

definition doc_get :: string where
  \<open>doc_get = ''{"name":"get_task","arguments":{"id":"MNS-42"}}''\<close>

definition doc_list :: string where
  \<open>doc_list = ''{"name":"list_tasks","arguments":{"board_id":"b 1","status":7}}''\<close>

definition sample_params :: "(string \<times> CallToolParams) list" where
  "sample_params =
     [(doc_unknown, \<lparr>Name = ''frobnicate'', Arguments = Map.empty\<rparr>),
      (doc_create, \<lparr>Name = ''create_task'', Arguments = [''title'' \<mapsto> JStr ''Write report'']\<rparr>),
      (doc_boards, \<lparr>Name = ''list_boards'', Arguments = Map.empty\<rparr>),
      (doc_comment, \<lparr>Name = ''add_comment'',
         Arguments = [''task_id'' \<mapsto> JStr ''t1'', ''text'' \<mapsto> JStr ''hello'']\<rparr>),
      (doc_update, \<lparr>Name = ''update_task'',
         Arguments = [''id'' \<mapsto> JStr ''MNS-42'', ''status'' \<mapsto> JStr ''completed'',
                      ''priority'' \<mapsto> JStr ''high'']\<rparr>),
      (doc_list, \<lparr>Name = ''list_tasks'',
         Arguments = [''board_id'' \<mapsto> JStr ''b 1'', ''status'' \<mapsto> JNum 7]\<rparr>),
      (doc_get, \<lparr>Name = ''get_task'', Arguments = [''id'' \<mapsto> JStr ''MNS-42'']\<rparr>)]"

definition list_args :: "string \<rightharpoonup> json" where
  "list_args = [''board_id'' \<mapsto> JStr ''b 1'', ''status'' \<mapsto> JNum 7]"

definition update_args :: "string \<rightharpoonup> json" where
  "update_args =
     [''id'' \<mapsto> JStr ''MNS-42'', ''status'' \<mapsto> JStr ''completed'',
      ''priority'' \<mapsto> JStr ''high'']"

definition from_table :: "(string \<times> 'a) list \<Rightarrow> string \<Rightarrow> string + 'a" where
  "from_table table data =
     (case map_of table data of None \<Rightarrow> Inl ''json: cannot unmarshal'' | Some v \<Rightarrow> Inr v)"

definition call_req :: "string \<Rightarrow> Request" where
  "call_req doc = \<lparr>rq_JSONRPC = ''2.0'', rq_ID = JNum 2, rq_Method = ''tools/call'', rq_Params = doc\<rparr>"

definition sample_runtime :: runtime where
  "sample_runtime =
     \<lparr>syntax_error = (\<lambda>data. ''invalid character''),
      dec_Request = from_table [(line_tools_list, req_tools_list),
                                (line_call_boards, call_req doc_boards)],
      dec_CallToolParams = from_table sample_params,
      dec_Boards = from_table [],
      dec_Tasks = from_table [],
      dec_Task = from_table [(task_doc, sample_task)],
      dec_Users = from_table [],
      dec_Comment = (\<lambda>data. (None, None)),
      MarshalIndent = (\<lambda>v. case v of VComment None \<Rightarrow> ''null'' | _ \<Rightarrow> ''{}''),
      int_of_float64 = (\<lambda>v. \<lfloor>v\<rfloor>)\<rparr>"

section \<open>Properties of the transport loop\<close>

lemmas scan_defs =
  checkValid_def scan_eof_def stepBeginValue_def stepBeginString_def step0_def stepESign_def
  expect_def pushParseState_def popParseState_def maxNestingDepth_def isSpace_def isDigit_def
  isDigit19_def isHex_def

lemma checkValid_empty: "\<not> checkValid []"
  by (simp add: scan_defs)

lemma main_loop_append:
  "main_loop L Do server (xs @ ys) st =
     (let (o1, st1) = main_loop L Do server xs st;
          (o2, st2) = main_loop L Do server ys st1
      in (o1 @ o2, st2))"
  by (induction xs arbitrary: st) (auto split: sum.splits prod.splits)

lemma main_loop_invalid:
  "\<not> checkValid line \<Longrightarrow>
   main_loop L Do server (line # rest) st =
     (parse_error (syntax_error L line) # fst (main_loop L Do server rest st),
      snd (main_loop L Do server rest st))"
  by (simp add: Unmarshal_def sendError_def parse_error_def split: prod.splits)

lemma length_main_loop:
  "main_loop L Do server lines st = (out, st') \<Longrightarrow> length out = length lines"
  by (induction lines arbitrary: st out st') (auto split: sum.splits prod.splits)

lemma sample_tools_list_line:
  "Unmarshal sample_runtime (dec_Request sample_runtime) line_tools_list = Inr req_tools_list"
  by (simp add: Unmarshal_def sample_runtime_def from_table_def line_tools_list_def
        line_call_boards_def scan_defs)

lemma sample_runtime_sel:
  "syntax_error sample_runtime d = ''invalid character''"
  "dec_CallToolParams sample_runtime = from_table sample_params"
  "dec_Task sample_runtime = from_table [(task_doc, sample_task)]"
  "dec_Boards sample_runtime = from_table []"
  "dec_Comment sample_runtime d = (None, None)"
  "MarshalIndent sample_runtime (VComment None) = ''null''"
  by (simp_all add: sample_runtime_def)
text \<open>
  C10. The loop does not skip an empty line: the empty string goes to the JSON parser like
  any other line, the parser rejects it, and the loop prints the parse-error response, code
  -32700 with a null id, before it goes on with the rest of the input.
\<close>

theorem C10_empty_line_is_parse_error:
  "main_loop L Do server ([] # rest) st =
     (\<lparr>rs_JSONRPC = ''2.0'', rs_ID = JNull, rs_Result = None,
       rs_Error = Some \<lparr>err_Code = - 32700, err_Message = ''Parse error'',
                        err_Data = syntax_error L []\<rparr>\<rparr>
        # fst (main_loop L Do server rest st),
      snd (main_loop L Do server rest st))"
  using main_loop_invalid [OF checkValid_empty, of L Do server rest st]
  by (simp add: parse_error_def)

theorem C10_witness:
  "main_loop sample_runtime sample_service (NewServer sample_client) [[]] st0 =
     ([\<lparr>rs_JSONRPC = ''2.0'', rs_ID = JNull, rs_Result = None,
        rs_Error = Some \<lparr>err_Code = - 32700, err_Message = ''Parse error'',
                         err_Data = ''invalid character''\<rparr>\<rparr>], st0)"
  using C10_empty_line_is_parse_error
          [of sample_runtime sample_service "NewServer sample_client" "[]" st0]
  by (simp add: sample_runtime_sel)


subsection \<open>The lines the scanner delivers\<close>

text \<open>A line, terminated or last, is delivered when it is shorter than the limit of the
  buffer; the first line that is not ends the scan with \<^verbatim>\<open>ErrTooLong\<close>, whatever
  follows it.\<close>

lemma scanner_Scan_line:
  "CHR 0x0A \<notin> set l \<Longrightarrow> length (buf @ l) < MaxScanTokenSize \<Longrightarrow>
   scanner_Scan e buf (l @ CHR 0x0A # rest) =
     (dropCR (buf @ l) # fst (scanner_Scan e [] rest), snd (scanner_Scan e [] rest))"
  by (induction l arbitrary: buf) (auto simp add: case_prod_unfold Let_def)

lemma scanner_Scan_last:
  "CHR 0x0A \<notin> set l \<Longrightarrow> length (buf @ l) < MaxScanTokenSize \<Longrightarrow> buf @ l \<noteq> [] \<Longrightarrow>
   scanner_Scan e buf l = ([dropCR (buf @ l)], e)"
  by (induction l arbitrary: buf) auto

lemma scanner_Scan_too_long:
  "CHR 0x0A \<notin> set l \<Longrightarrow> MaxScanTokenSize \<le> length (buf @ l) \<Longrightarrow>
   scanner_Scan e buf (l @ rest) = ([], Some ErrTooLong)"
proof (induction l arbitrary: buf)
  case Nil
  then show ?case
    by (cases rest) (auto simp add: MaxScanTokenSize_def)
next
  case (Cons c l)
  then show ?case
    by auto
qed

lemma scanner_Scan_terminated:
  "\<forall>l\<in>set ls. CHR 0x0A \<notin> set l \<and> length l < MaxScanTokenSize \<Longrightarrow>
   scanner_Scan e [] (terminated ls @ rest) =
     (map dropCR ls @ fst (scanner_Scan e [] rest), snd (scanner_Scan e [] rest))"
  by (induction ls) (simp_all add: terminated_def scanner_Scan_line)

lemma main_terminated:
  assumes "\<forall>l\<in>set ls. CHR 0x0A \<notin> set l \<and> length l < MaxScanTokenSize"
  shows "main L Do (Inr c) \<lparr>bytes = terminated ls @ rest, read_Err = e\<rparr> st =
     (fst (main_loop L Do (NewServer c) (map dropCR ls) st) @
        fst (main L Do (Inr c) \<lparr>bytes = rest, read_Err = e\<rparr>
               (snd (main_loop L Do (NewServer c) (map dropCR ls) st))),
      snd (main L Do (Inr c) \<lparr>bytes = rest, read_Err = e\<rparr>
               (snd (main_loop L Do (NewServer c) (map dropCR ls) st))))"
  by (simp add: main_def scanner_Scan_terminated [OF assms] main_loop_append case_prod_unfold Let_def
        del: main_loop.simps)

lemma checkValid_x: "0 < n \<Longrightarrow> \<not> checkValid (replicate n CHR ''x'')"
  by (cases n) (simp_all add: scan_defs)

lemma main_too_long:
  "CHR 0x0A \<notin> set l \<Longrightarrow> MaxScanTokenSize \<le> length l \<Longrightarrow>
   main L Do (Inr c) \<lparr>bytes = l @ rest, read_Err = e\<rparr> st =
     ([], Fatal ''Error reading stdin: bufio.Scanner: token too long'', st)"
  using scanner_Scan_too_long [of l "[]" e rest]
  by (simp add: main_def ErrTooLong_def)


lemma main_unterminated:
  assumes "\<forall>l\<in>set ls. CHR 0x0A \<notin> set l \<and> length l < MaxScanTokenSize"
    and "CHR 0x0A \<notin> set line" and "length line < MaxScanTokenSize" and "line \<noteq> []"
  shows "main L Do (Inr c) \<lparr>bytes = terminated ls @ line, read_Err = e\<rparr> st =
     (fst (main_loop L Do (NewServer c) (map dropCR ls @ [dropCR line]) st),
      (case e of None \<Rightarrow> Exit0 | Some r \<Rightarrow> Fatal (''Error reading stdin: '' @ r)),
      snd (main_loop L Do (NewServer c) (map dropCR ls @ [dropCR line]) st))"
  using scanner_Scan_last [of line "[]" e] assms(2-4)
  by (simp add: main_def scanner_Scan_terminated [OF assms(1)] case_prod_unfold Let_def
        del: main_loop.simps)

lemma dropCR_samples:
  "dropCR ''oops'' = ''oops''"
  "dropCR line_tools_list = line_tools_list"
  by (simp_all add: dropCR_def line_tools_list_def)

lemma sample_lines:
  "CHR 0x0A \<notin> set line_tools_list" "length line_tools_list < MaxScanTokenSize"
  by (simp_all add: line_tools_list_def MaxScanTokenSize_def)

text \<open>
  C4, for the lines that the scanner delivers. The input starts with lines that are all shorter
  than \<^verbatim>\<open>MaxScanTokenSize\<close>, 65536 bytes; the last of them is not valid JSON (as the text
  handed to the parser, without a carriage return at its end). Then the loop prints, after the
  responses to the earlier lines, a JSON-RPC error response with code -32700 and a null id, and
  nothing else for that line; it goes on with the rest of the input exactly as the program
  would on that rest alone, started in the state the earlier lines left, and ends as that run
  ends. The same holds for a last line without a line feed: the response is printed and, the
  input having ended without a read error, the process exits normally.
\<close>

theorem C4_invalid_line_is_not_fatal:
  assumes "\<forall>l\<in>set (before @ [line]). CHR 0x0A \<notin> set l \<and> length l < MaxScanTokenSize"
    and "\<not> checkValid (dropCR line)"
  shows "main L Do (Inr c) \<lparr>bytes = terminated (before @ [line]) @ rest, read_Err = e\<rparr> st =
       (let (o1, st1) = main_loop L Do (NewServer c) (map dropCR before) st;
            (o2, ending, st2) = main L Do (Inr c) \<lparr>bytes = rest, read_Err = e\<rparr> st1
        in (o1 @ \<lparr>rs_JSONRPC = ''2.0'', rs_ID = JNull, rs_Result = None,
                  rs_Error = Some \<lparr>err_Code = - 32700, err_Message = ''Parse error'',
                                   err_Data = syntax_error L (dropCR line)\<rparr>\<rparr> # o2,
            ending, st2)) \<and>
     (line \<noteq> [] \<longrightarrow>
      main L Do (Inr c) \<lparr>bytes = terminated before @ line, read_Err = None\<rparr> st =
       (let (o1, st1) = main_loop L Do (NewServer c) (map dropCR before) st
        in (o1 @ [\<lparr>rs_JSONRPC = ''2.0'', rs_ID = JNull, rs_Result = None,
                   rs_Error = Some \<lparr>err_Code = - 32700, err_Message = ''Parse error'',
                                    err_Data = syntax_error L (dropCR line)\<rparr>\<rparr>],
            Exit0, st1)))"
proof (rule conjI)
  show "main L Do (Inr c) \<lparr>bytes = terminated (before @ [line]) @ rest, read_Err = e\<rparr> st =
       (let (o1, st1) = main_loop L Do (NewServer c) (map dropCR before) st;
            (o2, ending, st2) = main L Do (Inr c) \<lparr>bytes = rest, read_Err = e\<rparr> st1
        in (o1 @ \<lparr>rs_JSONRPC = ''2.0'', rs_ID = JNull, rs_Result = None,
                  rs_Error = Some \<lparr>err_Code = - 32700, err_Message = ''Parse error'',
                                   err_Data = syntax_error L (dropCR line)\<rparr>\<rparr> # o2,
            ending, st2))"
    unfolding main_terminated [OF assms(1)]
    by (simp add: main_def main_loop_append main_loop_invalid [OF assms(2)] parse_error_def
          case_prod_unfold Let_def del: main_loop.simps(2))
next
  from assms(1) have ls: "\<forall>l\<in>set before. CHR 0x0A \<notin> set l \<and> length l < MaxScanTokenSize"
    and l: "CHR 0x0A \<notin> set line" "length line < MaxScanTokenSize"
    by simp_all
  show "line \<noteq> [] \<longrightarrow>
      main L Do (Inr c) \<lparr>bytes = terminated before @ line, read_Err = None\<rparr> st =
       (let (o1, st1) = main_loop L Do (NewServer c) (map dropCR before) st
        in (o1 @ [\<lparr>rs_JSONRPC = ''2.0'', rs_ID = JNull, rs_Result = None,
                   rs_Error = Some \<lparr>err_Code = - 32700, err_Message = ''Parse error'',
                                    err_Data = syntax_error L (dropCR line)\<rparr>\<rparr>],
            Exit0, st1))"
  proof
    assume "line \<noteq> []"
    from main_unterminated [OF ls l this, of L Do c None st] show "main L Do (Inr c) \<lparr>bytes = terminated before @ line, read_Err = None\<rparr> st =
       (let (o1, st1) = main_loop L Do (NewServer c) (map dropCR before) st
        in (o1 @ [\<lparr>rs_JSONRPC = ''2.0'', rs_ID = JNull, rs_Result = None,
                   rs_Error = Some \<lparr>err_Code = - 32700, err_Message = ''Parse error'',
                                    err_Data = syntax_error L (dropCR line)\<rparr>\<rparr>],
            Exit0, st1))"
      by (simp add: main_loop_append main_loop_invalid [OF assms(2)] parse_error_def
          case_prod_unfold Let_def del: main_loop.simps(2))
  qed
qed

theorem C4_witness:
  "\<not> checkValid (dropCR ''oops'') \<and>
   main sample_runtime sample_service (Inr sample_client)
     \<lparr>bytes = ''oops'' @ CHR 0x0A # line_tools_list @ [CHR 0x0A], read_Err = None\<rparr> st0 =
     ([\<lparr>rs_JSONRPC = ''2.0'', rs_ID = JNull, rs_Result = None,
        rs_Error = Some \<lparr>err_Code = - 32700, err_Message = ''Parse error'',
                         err_Data = ''invalid character''\<rparr>\<rparr>,
       handleToolsList (NewServer sample_client) req_tools_list],
      Exit0, st0) \<and>
   main sample_runtime sample_service (Inr sample_client)
     \<lparr>bytes = ''oops'', read_Err = None\<rparr> st0 =
     ([\<lparr>rs_JSONRPC = ''2.0'', rs_ID = JNull, rs_Result = None,
        rs_Error = Some \<lparr>err_Code = - 32700, err_Message = ''Parse error'',
                         err_Data = ''invalid character''\<rparr>\<rparr>],
      Exit0, st0)"
proof -
  have bad: "\<not> checkValid (dropCR ''oops'')"
    by (simp add: dropCR_samples scan_defs)
  have short: "\<forall>l\<in>set ([] @ [''oops'']). CHR 0x0A \<notin> set l \<and> length l < MaxScanTokenSize"
    by (simp add: MaxScanTokenSize_def)
  have rest: "main sample_runtime sample_service (Inr sample_client)
      \<lparr>bytes = line_tools_list @ [CHR 0x0A], read_Err = None\<rparr> st0 =
      ([handleToolsList (NewServer sample_client) req_tools_list], Exit0, st0)"
    using scanner_Scan_line [OF sample_lines(1), of "[]" None "[]"] sample_lines(2)
    by (simp add: main_def dropCR_samples sample_tools_list_line Handle_def req_tools_list_def)
  note inst = C4_invalid_line_is_not_fatal [OF short bad, of sample_runtime sample_service
      sample_client "line_tools_list @ [CHR 0x0A]" None st0]
  from inst [THEN conjunct1] have one:
    "main sample_runtime sample_service (Inr sample_client)
     \<lparr>bytes = ''oops'' @ CHR 0x0A # line_tools_list @ [CHR 0x0A], read_Err = None\<rparr> st0 =
     ([\<lparr>rs_JSONRPC = ''2.0'', rs_ID = JNull, rs_Result = None,
        rs_Error = Some \<lparr>err_Code = - 32700, err_Message = ''Parse error'',
                         err_Data = ''invalid character''\<rparr>\<rparr>,
       handleToolsList (NewServer sample_client) req_tools_list],
      Exit0, st0)"
    by (simp add: terminated_def rest sample_runtime_sel)
  from inst [THEN conjunct2] have two:
    "main sample_runtime sample_service (Inr sample_client)
     \<lparr>bytes = ''oops'', read_Err = None\<rparr> st0 =
     ([\<lparr>rs_JSONRPC = ''2.0'', rs_ID = JNull, rs_Result = None,
        rs_Error = Some \<lparr>err_Code = - 32700, err_Message = ''Parse error'',
                         err_Data = ''invalid character''\<rparr>\<rparr>],
      Exit0, st0)"
    by (simp add: terminated_def sample_runtime_sel)
  from bad one two show ?thesis
    by (intro conjI)
qed

text \<open>
  C4 for every line does not hold. A line of 70000 bytes that is not valid JSON gets no
  response: the scanner gives up on it with \<^verbatim>\<open>ErrTooLong\<close>, and \<^verbatim>\<open>main\<close> ends
  through \<^verbatim>\<open>log.Fatalf\<close> without reading the request that follows.
\<close>

theorem C4_counterexample:
  "\<not> checkValid (replicate 70000 CHR ''x'') \<and>
   main sample_runtime sample_service (Inr sample_client)
     \<lparr>bytes = replicate 70000 CHR ''x'' @ CHR 0x0A # line_tools_list @ [CHR 0x0A],
      read_Err = None\<rparr> st0 =
     ([], Fatal ''Error reading stdin: bufio.Scanner: token too long'', st0)"
proof (rule conjI)
  show "\<not> checkValid (replicate 70000 CHR ''x'')"
    by (rule checkValid_x) simp
  show "main sample_runtime sample_service (Inr sample_client)
     \<lparr>bytes = replicate 70000 CHR ''x'' @ CHR 0x0A # line_tools_list @ [CHR 0x0A],
      read_Err = None\<rparr> st0 =
     ([], Fatal ''Error reading stdin: bufio.Scanner: token too long'', st0)"
    by (rule main_too_long) (simp_all add: MaxScanTokenSize_def)
qed


section \<open>Properties of the client\<close>

lemma trace_net_after [simp]: "trace (net_after Do rq st) = trace st @ [(rq, outcome Do rq st)]"
  by (simp add: net_after_def outcome_def)

lemma request_eq:
  "request Do c m p b st =
     (of_outcome Inr (outcome Do (NewRequest c m p b) st), net_after Do (NewRequest c m p b) st)"
  by (simp add: request_def of_outcome_def outcome_def net_after_def Let_def
           split: prod.splits http_outcome.splits)

lemma lookup_eq:
  "lookup L Do c path st =
     (of_outcome (Unmarshal L (dec_Task L)) (outcome Do (NewRequest c ''GET'' path None) st),
      net_after Do (NewRequest c ''GET'' path None) st)"
proof (cases "outcome Do (NewRequest c ''GET'' path None) st")
  case (DoError e)
  then show ?thesis
    by (simp add: lookup_def request_eq of_outcome_def)
next
  case (DoResponse status body)
  then show ?thesis
    by (cases "Unmarshal L (dec_Task L) body")
       (simp_all add: lookup_def request_eq of_outcome_def)
qed

lemma GetTask_lookup:
  "GetTask L Do c ident st =
     (if CHR ''-'' \<in> set ident then
        (case lookup_by_ticket L Do c ident st of
           (Inl e, st1) \<Rightarrow> lookup_by_id L Do c ident st1
         | (Inr task, st1) \<Rightarrow> (Inr task, st1))
      else lookup_by_id L Do c ident st)"
proof -
  obtain r st1 where
    rq: "request Do c ''GET'' (''/api/tasks/by-ticket/'' @ ident) None st = (r, st1)"
    by (cases "request Do c ''GET'' (''/api/tasks/by-ticket/'' @ ident) None st")
  show ?thesis
  proof (cases r)
    case (Inl e)
    with rq show ?thesis
      by (simp add: GetTask_def lookup_by_ticket_def lookup_by_id_def lookup_def)
  next
    case (Inr data)
    with rq show ?thesis
      by (cases "Unmarshal L (dec_Task L) data")
         (simp_all add: GetTask_def lookup_by_ticket_def lookup_by_id_def lookup_def)
  qed
qed

lemma of_outcome_Inr:
  "of_outcome dec out = Inr v \<Longrightarrow>
   \<exists>status body. out = DoResponse status body \<and> status < 400 \<and> dec body = Inr v"
  by (cases out) (simp_all add: of_outcome_def split: if_splits)

lemma of_outcome_error:
  "400 \<le> status \<Longrightarrow>
   of_outcome dec (DoResponse status body) = Inl (''API error '' @ show_int status @ '': '' @ body)"
  by (simp add: of_outcome_def)

lemma new_exchanges_eq: "trace st' = trace st @ ex \<Longrightarrow> new_exchanges st st' = ex"
  by (simp add: new_exchanges_def)

text \<open>The three ways a call of \<^verbatim>\<open>GetTask\<close> can go: the lookup by identifier alone,
  the ticket lookup alone, or the ticket lookup followed by the lookup by identifier.\<close>

lemma GetTask_alt:
  assumes "GetTask L Do c ident st = (r, st')"
  shows
    "(r = of_outcome (Unmarshal L (dec_Task L)) (outcome Do (NewRequest c ''GET'' (''/api/tasks/'' @ ident) None) st) \<and> st' = net_after Do (NewRequest c ''GET'' (''/api/tasks/'' @ ident) None) st) \<or>
     (r = of_outcome (Unmarshal L (dec_Task L)) (outcome Do (NewRequest c ''GET'' (''/api/tasks/by-ticket/'' @ ident) None) st) \<and> st' = net_after Do (NewRequest c ''GET'' (''/api/tasks/by-ticket/'' @ ident) None) st) \<or>
     (r = of_outcome (Unmarshal L (dec_Task L)) (outcome Do (NewRequest c ''GET'' (''/api/tasks/'' @ ident) None) (net_after Do (NewRequest c ''GET'' (''/api/tasks/by-ticket/'' @ ident) None) st)) \<and>
        st' = net_after Do (NewRequest c ''GET'' (''/api/tasks/'' @ ident) None) (net_after Do (NewRequest c ''GET'' (''/api/tasks/by-ticket/'' @ ident) None) st))"
proof -
  let ?t = "NewRequest c ''GET'' (''/api/tasks/by-ticket/'' @ ident) None"
  let ?i = "NewRequest c ''GET'' (''/api/tasks/'' @ ident) None"
  show ?thesis
  proof (cases "CHR ''-'' \<in> set ident")
    case False
    with assms have "r = of_outcome (Unmarshal L (dec_Task L)) (outcome Do ?i st)"
        "st' = net_after Do ?i st"
      by (simp_all add: GetTask_lookup lookup_by_id_def lookup_eq)
    then show ?thesis
      by (intro disjI1 conjI)
  next
    case True
    show ?thesis
    proof (cases "of_outcome (Unmarshal L (dec_Task L)) (outcome Do ?t st)")
      case (Inr task)
      with True assms have "r = of_outcome (Unmarshal L (dec_Task L)) (outcome Do ?t st)"
          "st' = net_after Do ?t st"
        by (simp_all add: GetTask_lookup lookup_by_ticket_def lookup_eq)
      then show ?thesis
        by (intro disjI2 disjI1 conjI)
    next
      case (Inl e)
      with True assms have
          "r = of_outcome (Unmarshal L (dec_Task L)) (outcome Do ?i (net_after Do ?t st))"
          "st' = net_after Do ?i (net_after Do ?t st)"
        by (simp_all add: GetTask_lookup lookup_by_ticket_def lookup_by_id_def lookup_eq)
      then show ?thesis
        by (intro disjI2 conjI)
    qed
  qed
qed

text \<open>What a call of \<^verbatim>\<open>GetTask\<close> leaves in the log: one or two exchanges, all of
  them \<^verbatim>\<open>GET\<close> without a body, and the result is made of the last outcome.\<close>

lemma GetTask_trace:
  assumes "GetTask L Do c ident st = (r, st')"
  shows "(\<exists>rq. trace st' = trace st @ [(rq, snd (last (trace st')))] \<and>
            h_method rq = ''GET'' \<and> h_body rq = None) \<or>
         (\<exists>rq1 out1 rq. trace st' = trace st @ [(rq1, out1), (rq, snd (last (trace st')))] \<and>
            h_method rq1 = ''GET'' \<and> h_body rq1 = None \<and>
            h_method rq = ''GET'' \<and> h_body rq = None)"
    and "r = of_outcome (Unmarshal L (dec_Task L)) (snd (last (trace st')))"
proof -
  let ?t = "NewRequest c ''GET'' (''/api/tasks/by-ticket/'' @ ident) None"
  let ?i = "NewRequest c ''GET'' (''/api/tasks/'' @ ident) None"
  have m: "h_method ?t = ''GET''" "h_body ?t = None" "h_method ?i = ''GET''" "h_body ?i = None"
    by (simp_all add: NewRequest_def)
  note alt = GetTask_alt [OF assms]
  let ?goal =
    "((\<exists>rq. trace st' = trace st @ [(rq, snd (last (trace st')))] \<and>
            h_method rq = ''GET'' \<and> h_body rq = None) \<or>
         (\<exists>rq1 out1 rq. trace st' = trace st @ [(rq1, out1), (rq, snd (last (trace st')))] \<and>
            h_method rq1 = ''GET'' \<and> h_body rq1 = None \<and>
            h_method rq = ''GET'' \<and> h_body rq = None)) \<and>
     r = of_outcome (Unmarshal L (dec_Task L)) (snd (last (trace st')))"
  from alt have ?goal
  proof (elim disjE conjE)
    assume direct: "r = of_outcome (Unmarshal L (dec_Task L)) (outcome Do ?i st)"
      "st' = net_after Do ?i st"
    have "trace st' = trace st @ [(?i, snd (last (trace st')))]"
      by (simp add: direct)
    with m direct show ?goal
      by (intro conjI disjI1 exI [of _ ?i]) simp_all
  next
    assume ticket: "r = of_outcome (Unmarshal L (dec_Task L)) (outcome Do ?t st)"
      "st' = net_after Do ?t st"
    have "trace st' = trace st @ [(?t, snd (last (trace st')))]"
      by (simp add: ticket)
    with m ticket show ?goal
      by (intro conjI disjI1 exI [of _ ?t]) simp_all
  next
    assume fallback: "r = of_outcome (Unmarshal L (dec_Task L)) (outcome Do ?i (net_after Do ?t st))"
        "st' = net_after Do ?i (net_after Do ?t st)"
    have "trace st' = trace st @ [(?t, outcome Do ?t st), (?i, snd (last (trace st')))]"
      by (simp add: fallback)
    with m fallback show ?goal
      by (intro conjI disjI2 exI [of _ ?t] exI [of _ "outcome Do ?t st"] exI [of _ ?i]) simp_all
  qed
  then show
    "(\<exists>rq. trace st' = trace st @ [(rq, snd (last (trace st')))] \<and>
            h_method rq = ''GET'' \<and> h_body rq = None) \<or>
         (\<exists>rq1 out1 rq. trace st' = trace st @ [(rq1, out1), (rq, snd (last (trace st')))] \<and>
            h_method rq1 = ''GET'' \<and> h_body rq1 = None \<and>
            h_method rq = ''GET'' \<and> h_body rq = None)"
    and "r = of_outcome (Unmarshal L (dec_Task L)) (snd (last (trace st')))"
    by (rule conjunct1, rule conjunct2)
qed

lemma GetTask_reads:
  assumes "GetTask L Do c ident st = (r, st')"
  shows "trace st' = trace st @ new_exchanges st st'"
    and "new_exchanges st st' \<noteq> []"
    and "length (new_exchanges st st') \<le> 2"
    and "\<forall>x\<in>set (new_exchanges st st'). h_method (fst x) = ''GET'' \<and> h_body (fst x) = None"
proof -
  let ?goal = "trace st' = trace st @ new_exchanges st st' \<and> new_exchanges st st' \<noteq> [] \<and>
    length (new_exchanges st st') \<le> 2 \<and>
    (\<forall>x\<in>set (new_exchanges st st'). h_method (fst x) = ''GET'' \<and> h_body (fst x) = None)"
  from GetTask_trace(1) [OF assms] have ?goal
  proof (elim disjE exE conjE)
    fix rq
    assume tr: "trace st' = trace st @ [(rq, snd (last (trace st')))]"
      and m: "h_method rq = ''GET''" "h_body rq = None"
    from new_exchanges_eq [OF tr] tr m show ?goal
      by simp
  next
    fix rq1 out1 rq
    assume tr: "trace st' = trace st @ [(rq1, out1), (rq, snd (last (trace st')))]"
      and m: "h_method rq1 = ''GET''" "h_body rq1 = None" "h_method rq = ''GET''" "h_body rq = None"
    from new_exchanges_eq [OF tr] tr m show ?goal
      by simp
  qed
  then show "trace st' = trace st @ new_exchanges st st'"
    and "new_exchanges st st' \<noteq> []"
    and "length (new_exchanges st st') \<le> 2"
    and "\<forall>x\<in>set (new_exchanges st st'). h_method (fst x) = ''GET'' \<and> h_body (fst x) = None"
    by (rule conjunct1, rule conjunct2 [THEN conjunct1], rule conjunct2 [THEN conjunct2, THEN conjunct1],
        rule conjunct2 [THEN conjunct2, THEN conjunct2])
qed

subsection \<open>The sample deployment, evaluated\<close>

lemma sample_task_doc:
  "Unmarshal sample_runtime (dec_Task sample_runtime) task_doc = Inr sample_task"
  by (simp add: Unmarshal_def sample_runtime_sel from_table_def task_doc_def scan_defs)

lemma sample_outcomes:
  "outcome sample_service (NewRequest sample_client ''GET'' ''/api/tasks/by-ticket/MNS-42'' None) st
     = DoResponse 404 ''not found''"
  "outcome sample_service (NewRequest sample_client ''GET'' ''/api/tasks/MNS-42'' None) st
     = DoResponse 200 task_doc"
  "outcome sample_service (NewRequest sample_client ''GET'' ''/api/tasks/t1'' None) st
     = DoResponse 200 task_doc"
  "outcome sample_service (NewRequest sample_client ''PUT'' ''/api/tasks/t1'' b) st
     = DoResponse 200 ''{}''"
  "outcome sample_service (NewRequest sample_client ''POST'' ''/api/tasks/t1/comments'' b) st
     = DoResponse 200 ''accepted''"
  "outcome sample_service (NewRequest sample_client ''GET'' ''/api/boards'' None) st
     = DoResponse 500 ''internal error''"
  by (simp_all add: outcome_def sample_service_def NewRequest_def sample_client_def)

lemma NewRequest_sel:
  "h_method (NewRequest c m p b) = m"
  "h_url (NewRequest c m p b) = baseURL c @ p"
  "h_body (NewRequest c m p b) = b"
  by (simp_all add: NewRequest_def)

lemma sample_sel:
  "baseURL sample_client = ''https://board.example''"
  "task_ID sample_task = ''t1''"
  "trace st0 = []"
  by (simp_all add: sample_client_def sample_task_def st0_def)

lemma sample_GetTask_ticket:
  "fst (GetTask sample_runtime sample_service sample_client ''MNS-42'' st) = Inr sample_task"
  by (simp add: GetTask_lookup lookup_by_ticket_def lookup_by_id_def lookup_eq sample_outcomes
        of_outcome_def sample_task_doc)

lemma sample_GetTask_id:
  "fst (GetTask sample_runtime sample_service sample_client ''t1'' st) = Inr sample_task"
  by (simp add: GetTask_lookup lookup_by_ticket_def lookup_by_id_def lookup_eq sample_outcomes
        of_outcome_def sample_task_doc)

text \<open>
  C1. \<^verbatim>\<open>GetTask\<close> on an identifier with a hyphen first looks the ticket number up; when
  that lookup fails, whether on the request or on the decoding of the body, it continues, from
  the state the failed attempt left, with the lookup by the raw identifier and returns that
  lookup's result and state unchanged, success or failure. On an identifier without a hyphen
  it is the lookup by identifier alone. Either lookup is one exchange, a \<^verbatim>\<open>GET\<close> on its
  own endpoint, so without a hyphen the ticket endpoint is never contacted.
\<close>

theorem C1_GetTask_resolution:
  "GetTask L Do c ident st =
     (if CHR ''-'' \<in> set ident then
        (case lookup_by_ticket L Do c ident st of
           (Inl e, st1) \<Rightarrow> lookup_by_id L Do c ident st1
         | (Inr task, st1) \<Rightarrow> (Inr task, st1))
      else lookup_by_id L Do c ident st) \<and>
   (\<exists>out. trace (snd (lookup_by_ticket L Do c ident st)) =
       trace st @ [(NewRequest c ''GET'' (''/api/tasks/by-ticket/'' @ ident) None, out)]) \<and>
   (\<exists>out. trace (snd (lookup_by_id L Do c ident st)) =
       trace st @ [(NewRequest c ''GET'' (''/api/tasks/'' @ ident) None, out)])"
proof (intro conjI)
  show "GetTask L Do c ident st =
     (if CHR ''-'' \<in> set ident then
        (case lookup_by_ticket L Do c ident st of
           (Inl e, st1) \<Rightarrow> lookup_by_id L Do c ident st1
         | (Inr task, st1) \<Rightarrow> (Inr task, st1))
      else lookup_by_id L Do c ident st)"
    by (rule GetTask_lookup)
next
  show "\<exists>out. trace (snd (lookup_by_ticket L Do c ident st)) =
       trace st @ [(NewRequest c ''GET'' (''/api/tasks/by-ticket/'' @ ident) None, out)]"
    by (rule exI [of _ "outcome Do (NewRequest c ''GET'' (''/api/tasks/by-ticket/'' @ ident) None) st"])
       (simp add: lookup_by_ticket_def lookup_eq)
next
  show "\<exists>out. trace (snd (lookup_by_id L Do c ident st)) =
       trace st @ [(NewRequest c ''GET'' (''/api/tasks/'' @ ident) None, out)]"
    by (rule exI [of _ "outcome Do (NewRequest c ''GET'' (''/api/tasks/'' @ ident) None) st"])
       (simp add: lookup_by_id_def lookup_eq)
qed

theorem C1_witness:
  "GetTask sample_runtime sample_service sample_client ''MNS-42'' st0 =
     lookup_by_id sample_runtime sample_service sample_client ''MNS-42''
       (snd (lookup_by_ticket sample_runtime sample_service sample_client ''MNS-42'' st0)) \<and>
   fst (lookup_by_ticket sample_runtime sample_service sample_client ''MNS-42'' st0) =
     Inl ''API error 404: not found'' \<and>
   fst (GetTask sample_runtime sample_service sample_client ''MNS-42'' st0) = Inr sample_task \<and>
   GetTask sample_runtime sample_service sample_client ''t1'' st0 =
     lookup_by_id sample_runtime sample_service sample_client ''t1'' st0"
  using C1_GetTask_resolution [of sample_runtime sample_service sample_client "''MNS-42''" st0]
    C1_GetTask_resolution [of sample_runtime sample_service sample_client "''t1''" st0]
  by (simp add: lookup_by_ticket_def lookup_by_id_def lookup_eq sample_outcomes of_outcome_def
        sample_task_doc show_int_def show_nat.simps digit_char_def)

text \<open>
  C2. A call of \<^verbatim>\<open>UpdateTask\<close> that succeeds has made, in this order, one
  \<^verbatim>\<open>GetTask\<close> on the identifier given (the resolution read), one \<^verbatim>\<open>PUT\<close> on the
  resolved task's ID with the marshalled parameters as body (the write), and one
  \<^verbatim>\<open>GetTask\<close> on that ID (the confirmation read), all three successful. The log
  grows by exactly these: the exchanges of the first read, the \<^verbatim>\<open>PUT\<close>, the exchanges of
  the second read, where a read is one or two \<^verbatim>\<open>GET\<close> requests without a body (two when
  the ticket endpoint is tried first). The task returned is the body of the very last
  response, a \<^verbatim>\<open>GET\<close> of the confirmation read, decoded: neither the payload nor the
  body of the \<^verbatim>\<open>PUT\<close> response.
\<close>

theorem C2_UpdateTask_reads_and_write:
  assumes "UpdateTask L Do c ident params st = (Inr t, st')"
  shows "\<exists>task st1 body st2.
     GetTask L Do c ident st = (Inr task, st1) \<and>
     request Do c ''PUT'' (''/api/tasks/'' @ task_ID task)
       (Some (marshal_UpdateTaskParams params)) st1 = (Inr body, st2) \<and>
     GetTask L Do c (task_ID task) st2 = (Inr t, st') \<and>
     (\<exists>reads1 out reads2.
        trace st' = trace st @ reads1
          @ [(NewRequest c ''PUT'' (''/api/tasks/'' @ task_ID task)
                (Some (marshal_UpdateTaskParams params)), out)]
          @ reads2 \<and>
        reads1 = new_exchanges st st1 \<and> reads2 = new_exchanges st2 st' \<and>
        reads1 \<noteq> [] \<and> reads2 \<noteq> [] \<and> length reads1 \<le> 2 \<and> length reads2 \<le> 2 \<and>
        (\<forall>x\<in>set (reads1 @ reads2). h_method (fst x) = ''GET'' \<and> h_body (fst x) = None)) \<and>
     (\<exists>status doc. snd (last (trace st')) = DoResponse status doc \<and> status < 400 \<and>
        Unmarshal L (dec_Task L) doc = Inr t)"
proof -
  obtain r1 st1 where g1': "GetTask L Do c ident st = (r1, st1)"
    by (cases "GetTask L Do c ident st")
  with assms have "\<exists>task. r1 = Inr task"
    by (cases r1) (simp_all add: UpdateTask_def)
  then obtain task where "r1 = Inr task" ..
  with g1' have g1: "GetTask L Do c ident st = (Inr task, st1)"
    by simp
  let ?rq = "NewRequest c ''PUT'' (''/api/tasks/'' @ task_ID task)
               (Some (marshal_UpdateTaskParams params))"
  obtain r2 st2 where put': "request Do c ''PUT'' (''/api/tasks/'' @ task_ID task)
       (Some (marshal_UpdateTaskParams params)) st1 = (r2, st2)"
    by (cases "request Do c ''PUT'' (''/api/tasks/'' @ task_ID task)
       (Some (marshal_UpdateTaskParams params)) st1")
  with assms g1 have "\<exists>body. r2 = Inr body"
    by (cases r2) (simp_all add: UpdateTask_def)
  then obtain body where "r2 = Inr body" ..
  with put' have put: "request Do c ''PUT'' (''/api/tasks/'' @ task_ID task)
       (Some (marshal_UpdateTaskParams params)) st1 = (Inr body, st2)"
    by simp
  from assms g1 put have g2: "GetTask L Do c (task_ID task) st2 = (Inr t, st')"
    by (simp add: UpdateTask_def)
  from put have st2: "st2 = net_after Do ?rq st1"
    by (simp add: request_eq)
  have tr: "trace st' = trace st @ new_exchanges st st1 @ [(?rq, outcome Do ?rq st1)]
              @ new_exchanges st2 st'"
    using GetTask_reads(1) [OF g1] GetTask_reads(1) [OF g2] st2 by simp
  have gets: "\<forall>x\<in>set (new_exchanges st st1 @ new_exchanges st2 st').
      h_method (fst x) = ''GET'' \<and> h_body (fst x) = None"
    using GetTask_reads(4) [OF g1] GetTask_reads(4) [OF g2] by (simp add: ball_Un)
  have reads: "\<exists>reads1 out reads2.
        trace st' = trace st @ reads1 @ [(?rq, out)] @ reads2 \<and>
        reads1 = new_exchanges st st1 \<and> reads2 = new_exchanges st2 st' \<and>
        reads1 \<noteq> [] \<and> reads2 \<noteq> [] \<and> length reads1 \<le> 2 \<and> length reads2 \<le> 2 \<and>
        (\<forall>x\<in>set (reads1 @ reads2). h_method (fst x) = ''GET'' \<and> h_body (fst x) = None)"
    using tr gets GetTask_reads(2,3) [OF g1] GetTask_reads(2,3) [OF g2]
    by (intro exI [of _ "new_exchanges st st1"] exI [of _ "outcome Do ?rq st1"]
          exI [of _ "new_exchanges st2 st'"] conjI refl)
  have "of_outcome (Unmarshal L (dec_Task L)) (snd (last (trace st'))) = Inr t"
    using GetTask_trace(2) [OF g2] by simp
  then have last: "\<exists>status doc. snd (last (trace st')) = DoResponse status doc \<and> status < 400 \<and>
        Unmarshal L (dec_Task L) doc = Inr t"
    by (rule of_outcome_Inr)
  from g1 put g2 reads last show ?thesis
    by (intro exI [of _ task] exI [of _ st1] exI [of _ body] exI [of _ st2] conjI)
qed

theorem C2_witness:
  "UpdateTask sample_runtime sample_service sample_client ''MNS-42'' sample_update st0 =
     (Inr sample_task,
      snd (UpdateTask sample_runtime sample_service sample_client ''MNS-42'' sample_update st0)) \<and>
   map (\<lambda>x. (h_method (fst x), h_url (fst x)))
     (trace (snd (UpdateTask sample_runtime sample_service sample_client ''MNS-42'' sample_update st0))) =
     [(''GET'', ''https://board.example/api/tasks/by-ticket/MNS-42''),
      (''GET'', ''https://board.example/api/tasks/MNS-42''),
      (''PUT'', ''https://board.example/api/tasks/t1''),
      (''GET'', ''https://board.example/api/tasks/t1'')] \<and>
   (\<exists>status doc.
      snd (last (trace (snd (UpdateTask sample_runtime sample_service sample_client ''MNS-42''
        sample_update st0)))) = DoResponse status doc \<and> status < 400 \<and>
      Unmarshal sample_runtime (dec_Task sample_runtime) doc = Inr sample_task)"
proof -
  let ?u = "UpdateTask sample_runtime sample_service sample_client ''MNS-42'' sample_update st0"
  have ev: "?u = (Inr sample_task, snd ?u)" and
    urls: "map (\<lambda>x. (h_method (fst x), h_url (fst x))) (trace (snd ?u)) =
     [(''GET'', ''https://board.example/api/tasks/by-ticket/MNS-42''),
      (''GET'', ''https://board.example/api/tasks/MNS-42''),
      (''PUT'', ''https://board.example/api/tasks/t1''),
      (''GET'', ''https://board.example/api/tasks/t1'')]"
    by (simp_all add: UpdateTask_def GetTask_lookup lookup_by_ticket_def lookup_by_id_def
          lookup_eq request_eq sample_outcomes of_outcome_def sample_task_doc sample_sel
          NewRequest_sel)
  from C2_UpdateTask_reads_and_write [OF ev] have
    "\<exists>status doc. snd (last (trace (snd ?u))) = DoResponse status doc \<and> status < 400 \<and>
      Unmarshal sample_runtime (dec_Task sample_runtime) doc = Inr sample_task"
    by (elim exE conjE) (intro exI conjI)
  with ev urls show ?thesis
    by (intro conjI)
qed



section \<open>Properties of the dispatcher\<close>

lemma callTool_unknown:
  "name \<notin> set registered_names \<Longrightarrow>
   callTool L Do s name args st = (Inl (''unknown tool: '' @ name), st)"
  by (simp add: callTool_def registered_names_def)

lemma Handle_tools_call:
  "rq_Method req = ''tools/call'' \<Longrightarrow> Handle L Do s req st = handleToolsCall L Do s req st"
  by (simp add: Handle_def)

lemma handleToolsCall_error:
  assumes "Unmarshal L (dec_CallToolParams L) (rq_Params req) = Inr params"
    and "callTool L Do s (Name params) (Arguments params) st = (Inl err, st')"
  shows "handleToolsCall L Do s req st = (tool_error (rq_ID req) (''Error: '' @ err), st')"
  using assms by (simp add: handleToolsCall_def tool_error_def)

lemma sample_params_docs:
  "Unmarshal sample_runtime (dec_CallToolParams sample_runtime) doc_unknown =
     Inr \<lparr>Name = ''frobnicate'', Arguments = Map.empty\<rparr>"
  "Unmarshal sample_runtime (dec_CallToolParams sample_runtime) doc_create =
     Inr \<lparr>Name = ''create_task'', Arguments = [''title'' \<mapsto> JStr ''Write report'']\<rparr>"
  "Unmarshal sample_runtime (dec_CallToolParams sample_runtime) doc_boards =
     Inr \<lparr>Name = ''list_boards'', Arguments = Map.empty\<rparr>"
  "Unmarshal sample_runtime (dec_CallToolParams sample_runtime) doc_comment =
     Inr \<lparr>Name = ''add_comment'',
          Arguments = [''task_id'' \<mapsto> JStr ''t1'', ''text'' \<mapsto> JStr ''hello'']\<rparr>"
  "Unmarshal sample_runtime (dec_CallToolParams sample_runtime) doc_update =
     Inr \<lparr>Name = ''update_task'',
          Arguments = [''id'' \<mapsto> JStr ''MNS-42'', ''status'' \<mapsto> JStr ''completed'',
                       ''priority'' \<mapsto> JStr ''high'']\<rparr>"
  "Unmarshal sample_runtime (dec_CallToolParams sample_runtime) doc_list =
     Inr \<lparr>Name = ''list_tasks'',
          Arguments = [''board_id'' \<mapsto> JStr ''b 1'', ''status'' \<mapsto> JNum 7]\<rparr>"
  "Unmarshal sample_runtime (dec_CallToolParams sample_runtime) doc_get =
     Inr \<lparr>Name = ''get_task'', Arguments = [''id'' \<mapsto> JStr ''MNS-42'']\<rparr>"
  by (simp_all add: Unmarshal_def sample_runtime_sel from_table_def sample_params_def
        doc_unknown_def doc_create_def doc_boards_def doc_comment_def doc_update_def doc_list_def
        doc_get_def scan_defs)

lemma call_req_sel:
  "rq_Method (call_req doc) = ''tools/call''"
  "rq_Params (call_req doc) = doc"
  "rq_ID (call_req doc) = JNum 2"
  by (simp_all add: call_req_def)

text \<open>
  C3. A \<^verbatim>\<open>tools/call\<close> request whose tool name is none of the seven registered names
  gets a response without a JSON-RPC error object: its result is one text block with the
  text \<open>Error: unknown tool: \<close> followed by the name, flagged as an error. Nothing is sent
  to the remote service.
\<close>

theorem C3_unknown_tool:
  assumes "rq_Method req = ''tools/call''"
    and "Unmarshal L (dec_CallToolParams L) (rq_Params req) = Inr params"
    and "Name params \<notin> set registered_names"
  shows "Handle L Do s req st =
     (\<lparr>rs_JSONRPC = ''2.0'', rs_ID = rq_ID req,
       rs_Result = Some (ResCallTool
         \<lparr>Content = [\<lparr>cb_Type = ''text'', cb_Text = ''Error: unknown tool: '' @ Name params\<rparr>],
          IsError = True\<rparr>),
       rs_Error = None\<rparr>, st)"
proof -
  have "callTool L Do s (Name params) (Arguments params) st =
          (Inl (''unknown tool: '' @ Name params), st)"
    using assms(3) by (rule callTool_unknown)
  from handleToolsCall_error [OF assms(2) this] show ?thesis
    by (simp add: Handle_tools_call [OF assms(1)] tool_error_def)
qed

theorem C3_witness:
  "Handle sample_runtime sample_service (NewServer sample_client) (call_req doc_unknown) st0 =
     (\<lparr>rs_JSONRPC = ''2.0'', rs_ID = JNum 2,
       rs_Result = Some (ResCallTool
         \<lparr>Content = [\<lparr>cb_Type = ''text'', cb_Text = ''Error: unknown tool: frobnicate''\<rparr>],
          IsError = True\<rparr>),
       rs_Error = None\<rparr>, st0)"
proof -
  have a: "rq_Method (call_req doc_unknown) = ''tools/call''"
    by (simp add: call_req_sel)
  have b: "Unmarshal sample_runtime (dec_CallToolParams sample_runtime)
             (rq_Params (call_req doc_unknown)) = Inr \<lparr>Name = ''frobnicate'', Arguments = Map.empty\<rparr>"
    by (simp add: call_req_sel sample_params_docs)
  have c: "Name \<lparr>Name = ''frobnicate'', Arguments = Map.empty\<rparr> \<notin> set registered_names"
    by (simp add: registered_names_def)
  from C3_unknown_tool [OF a b c, of sample_service "NewServer sample_client" st0]
  show ?thesis
    by (simp add: call_req_sel)
qed

lemma assert_string_empty:
  "\<not> nonempty_string x \<Longrightarrow> fst (assert_string x) = []"
  by (simp add: nonempty_string_def assert_string_def split: option.splits json.splits)

lemma assert_string_nonempty:
  "nonempty_string x \<Longrightarrow> fst (assert_string x) \<noteq> [] \<and> snd (assert_string x)"
  by (simp add: nonempty_string_def assert_string_def split: option.splits json.splits)

lemma callTool_create_no_board:
  "\<not> nonempty_string (args ''board_id'') \<Longrightarrow>
   callTool L Do s ''create_task'' args st = (Inl ''board_id and title are required'', st)"
  by (simp add: callTool_def assert_string_empty)

text \<open>
  C5, as the code has it. A \<^verbatim>\<open>tools/call\<close> of \<open>create_task\<close> whose \<open>board_id\<close>
  argument is missing, the empty string or not a string, and whose \<open>title\<close> is a non-empty
  string, gets a tool-error result whose text is
  \<open>Error: board_id and title are required\<close>: the dispatcher puts \<open>Error: \<close> in front of
  every error a tool returns, this one included. The state of the network is returned
  unchanged: no request is issued.
\<close>

theorem C5_create_task_without_board_id:
  assumes "rq_Method req = ''tools/call''"
    and "Unmarshal L (dec_CallToolParams L) (rq_Params req) = Inr params"
    and "Name params = ''create_task''"
    and "\<not> nonempty_string (Arguments params ''board_id'')"
    and "nonempty_string (Arguments params ''title'')"
  shows "Handle L Do s req st =
     (tool_error (rq_ID req) ''Error: board_id and title are required'', st)"
proof -
  from assms(3,4) have
    "callTool L Do s (Name params) (Arguments params) st =
       (Inl ''board_id and title are required'', st)"
    by (simp add: callTool_create_no_board)
  from handleToolsCall_error [OF assms(2) this] show ?thesis
    by (simp add: Handle_tools_call [OF assms(1)])
qed

theorem C5_witness:
  "Handle sample_runtime sample_service (NewServer sample_client) (call_req doc_create) st0 =
     (\<lparr>rs_JSONRPC = ''2.0'', rs_ID = JNum 2,
       rs_Result = Some (ResCallTool
         \<lparr>Content = [\<lparr>cb_Type = ''text'',
                       cb_Text = ''Error: board_id and title are required''\<rparr>],
          IsError = True\<rparr>),
       rs_Error = None\<rparr>, st0)"
proof -
  let ?p = "\<lparr>Name = ''create_task'', Arguments = [''title'' \<mapsto> JStr ''Write report'']\<rparr>"
  have a: "rq_Method (call_req doc_create) = ''tools/call''"
    by (simp add: call_req_sel)
  have b: "Unmarshal sample_runtime (dec_CallToolParams sample_runtime)
             (rq_Params (call_req doc_create)) = Inr ?p"
    by (simp add: call_req_sel sample_params_docs)
  have c: "Name ?p = ''create_task''"
    by simp
  have d: "\<not> nonempty_string (Arguments ?p ''board_id'')"
    by (simp add: nonempty_string_def)
  have e: "nonempty_string (Arguments ?p ''title'')"
    by (simp add: nonempty_string_def)
  from C5_create_task_without_board_id [OF a b c d e, of sample_service "NewServer sample_client" st0]
  show ?thesis
    by (simp add: call_req_sel tool_error_def)
qed

text \<open>C5 with the bare message as the text of the result, without the prefix, does not hold:
  the same request refutes it.\<close>

theorem C5_counterexample:
  "fst (Handle sample_runtime sample_service (NewServer sample_client) (call_req doc_create) st0)
     \<noteq> tool_error (JNum 2) ''board_id and title are required''"
proof -
  have "callTool sample_runtime sample_service (NewServer sample_client) ''create_task''
          [''title'' \<mapsto> JStr ''Write report''] st0 = (Inl ''board_id and title are required'', st0)"
    by (rule callTool_create_no_board) (simp add: nonempty_string_def)
  then have "Handle sample_runtime sample_service (NewServer sample_client) (call_req doc_create) st0
      = (tool_error (JNum 2) ''Error: board_id and title are required'', st0)"
    by (simp add: Handle_tools_call call_req_sel handleToolsCall_def sample_params_docs
          tool_error_def)
  then show ?thesis
    by (simp add: tool_error_def)
qed

lemma main_loop_Inl:
  "Unmarshal L (dec_Request L) line = Inl err \<Longrightarrow>
   main_loop L Do server (line # rest) st =
     (sendError JNull (- 32700) ''Parse error'' err # fst (main_loop L Do server rest st),
      snd (main_loop L Do server rest st))"
  by (simp add: case_prod_unfold Let_def)

lemma main_loop_Inr:
  "Unmarshal L (dec_Request L) line = Inr req \<Longrightarrow>
   main_loop L Do server (line # rest) st =
     (fst (Handle L Do server req st)
        # fst (main_loop L Do server rest (snd (Handle L Do server req st))),
      snd (main_loop L Do server rest (snd (Handle L Do server req st))))"
  by (simp add: case_prod_unfold Let_def)

lemma main_loop_nth:
  "i < length lines \<Longrightarrow> Unmarshal L (dec_Request L) (lines ! i) = Inr req \<Longrightarrow>
   fst (main_loop L Do server lines st) ! i =
     fst (Handle L Do server req (snd (main_loop L Do server (take i lines) st)))"
proof (induction lines arbitrary: i st)
  case Nil
  then show ?case by simp
next
  case (Cons line rest)
  show ?case
  proof (cases i)
    case 0
    with Cons.prems show ?thesis
      by (simp add: main_loop_Inr del: main_loop.simps(2))
  next
    case (Suc j)
    with Cons.prems have j: "j < length rest" "Unmarshal L (dec_Request L) (rest ! j) = Inr req"
      by simp_all
    show ?thesis
    proof (cases "Unmarshal L (dec_Request L) line")
      case (Inl err)
      with Suc Cons.IH [OF j, of st] show ?thesis
        by (simp add: main_loop_Inl del: main_loop.simps(2))
    next
      case (Inr first)
      with Suc Cons.IH [OF j, of "snd (Handle L Do server first st)"] show ?thesis
        by (simp add: main_loop_Inr del: main_loop.simps(2))
    qed
  qed
qed

lemma registry_names: "map tool_Name (tools (registerTools s)) = registered_names"
  by (simp add: registerTools_def registered_names_def)

text \<open>
  C9. Whatever lines the server has processed before, a line that decodes to a request with
  method \<open>tools/list\<close> is answered with the registry of the server as \<^verbatim>\<open>NewServer\<close>
  built it. That registry does not depend on the client or on what the server held before
  \<^verbatim>\<open>registerTools\<close> ran, and its names are the seven tool names, in order. No function
  of the program other than \<^verbatim>\<open>registerTools\<close> assigns the registry: the loop passes the
  same server to every request.
\<close>

theorem C9_tools_list_is_the_registry:
  assumes "i < length lines"
    and "Unmarshal L (dec_Request L) (lines ! i) = Inr req"
    and "rq_Method req = ''tools/list''"
  shows "fst (main_loop L Do (NewServer c) lines st) ! i =
       \<lparr>rs_JSONRPC = ''2.0'', rs_ID = rq_ID req,
        rs_Result = Some (ToolsListResult (tools (NewServer c))), rs_Error = None\<rparr> \<and>
     tools (NewServer c) = tools (registerTools s) \<and>
     map tool_Name (tools (NewServer c)) =
       [''list_boards'', ''list_tasks'', ''get_task'', ''create_task'', ''update_task'',
        ''add_comment'', ''list_users'']"
proof (intro conjI)
  from main_loop_nth [OF assms(1,2)] assms(3)
  show "fst (main_loop L Do (NewServer c) lines st) ! i =
       \<lparr>rs_JSONRPC = ''2.0'', rs_ID = rq_ID req,
        rs_Result = Some (ToolsListResult (tools (NewServer c))), rs_Error = None\<rparr>"
    by (simp add: Handle_def handleToolsList_def)
  show "tools (NewServer c) = tools (registerTools s)"
    by (simp add: NewServer_def registerTools_def)
  show "map tool_Name (tools (NewServer c)) =
       [''list_boards'', ''list_tasks'', ''get_task'', ''create_task'', ''update_task'',
        ''add_comment'', ''list_users'']"
    using registry_names [of "\<lparr>client = c, tools = []\<rparr>"]
    by (simp add: NewServer_def registered_names_def)
qed

theorem C9_witness:
  "fst (main_loop sample_runtime sample_service (NewServer sample_client)
          [line_call_boards, line_tools_list] st0) ! 1 =
       \<lparr>rs_JSONRPC = ''2.0'', rs_ID = JNum 1,
        rs_Result = Some (ToolsListResult (tools (NewServer sample_client))), rs_Error = None\<rparr> \<and>
   length (tools (NewServer sample_client)) = 7"
proof -
  have a: "1 < length [line_call_boards, line_tools_list]"
    by simp
  have b: "Unmarshal sample_runtime (dec_Request sample_runtime)
             ([line_call_boards, line_tools_list] ! 1) = Inr req_tools_list"
    by (simp add: sample_tools_list_line)
  have c: "rq_Method req_tools_list = ''tools/list''"
    by (simp add: req_tools_list_def)
  from C9_tools_list_is_the_registry [OF a b c, of sample_service sample_client st0]
  have "fst (main_loop sample_runtime sample_service (NewServer sample_client)
          [line_call_boards, line_tools_list] st0) ! 1 =
       \<lparr>rs_JSONRPC = ''2.0'', rs_ID = JNum 1,
        rs_Result = Some (ToolsListResult (tools (NewServer sample_client))), rs_Error = None\<rparr>"
    and "length (map tool_Name (tools (NewServer sample_client))) = 7"
    by (simp_all add: req_tools_list_def)
  then show ?thesis
    by simp
qed



section \<open>Failures of the remote service\<close>

lemma snd_as_value: "snd (as_value f res) = snd res"
  by (cases res, cases "fst res") (simp_all add: as_value_def)

lemma new_exchanges_single:
  "new_exchanges st (net_after Do rq st) = [(rq, outcome Do rq st)]"
  by (rule new_exchanges_eq) simp

lemma new_exchanges_none: "new_exchanges st st = []"
  by (simp add: new_exchanges_def)

lemma surfaced_of_outcome: "surfaced out (of_outcome dec out)"
  by (cases out) (simp_all add: surfaced_def of_outcome_def)

lemma surfaced_Inl: "surfaced out (Inl e :: string + 'a) \<Longrightarrow> surfaced out (Inl e :: string + 'b)"
  by (cases out) (simp_all add: surfaced_def split: if_splits)

lemma surfaced_Inr: "surfaced out (Inr v :: string + 'a) \<Longrightarrow> surfaced out (Inr w :: string + 'b)"
  by (cases out) (simp_all add: surfaced_def split: if_splits)

lemma reaches_apiI:
  "trace st' = trace st @ new_exchanges st st' \<Longrightarrow> new_exchanges st st' \<noteq> [] \<Longrightarrow>
   surfaced (snd (last (trace st'))) r \<Longrightarrow> reaches_api st (r, st')"
  unfolding reaches_api_def fst_conv snd_conv by (intro conjI)

lemma reaches_apiD:
  assumes "reaches_api st (r, st')"
  shows "trace st' = trace st @ new_exchanges st st'"
    and "new_exchanges st st' \<noteq> []"
    and "surfaced (snd (last (trace st'))) r"
  using assms unfolding reaches_api_def fst_conv snd_conv
  by (rule conjunct1, rule conjunct2 [THEN conjunct1], rule conjunct2 [THEN conjunct2])

lemma reaches_api_Inl:
  assumes "reaches_api st (Inl e :: string + 'a, st')"
  shows "reaches_api st (Inl e :: string + 'b, st')"
  using reaches_apiD(1,2) [OF assms] surfaced_Inl [OF reaches_apiD(3) [OF assms]]
  by (rule reaches_apiI)

lemma reaches_api_Inr:
  assumes "reaches_api st (Inr v :: string + 'a, st')"
  shows "reaches_api st (Inr w :: string + 'b, st')"
  using reaches_apiD(1,2) [OF assms] surfaced_Inr [OF reaches_apiD(3) [OF assms]]
  by (rule reaches_apiI)

lemma reaches_api_single:
  "reaches_api st (of_outcome dec (outcome Do rq st), net_after Do rq st)"
proof (rule reaches_apiI)
  have ne: "new_exchanges st (net_after Do rq st) = [(rq, outcome Do rq st)]"
    by (rule new_exchanges_eq) simp
  show "trace (net_after Do rq st) = trace st @ new_exchanges st (net_after Do rq st)"
    unfolding ne by simp
  show "new_exchanges st (net_after Do rq st) \<noteq> []"
    unfolding ne by simp
  show "surfaced (snd (last (trace (net_after Do rq st)))) (of_outcome dec (outcome Do rq st))"
    by (simp add: surfaced_of_outcome)
qed

lemma reaches_api_trans:
  assumes "trace st1 = trace st @ ex" and "reaches_api st1 (r, st')"
  shows "reaches_api st (r, st')"
proof (rule reaches_apiI)
  from reaches_apiD(1) [OF assms(2)] assms(1)
  have tr: "trace st' = trace st @ (ex @ new_exchanges st1 st')"
    by simp
  have ne: "new_exchanges st st' = ex @ new_exchanges st1 st'"
    using tr by (rule new_exchanges_eq)
  show "trace st' = trace st @ new_exchanges st st'"
    unfolding ne by (rule tr)
  show "new_exchanges st st' \<noteq> []"
    unfolding ne using reaches_apiD(2) [OF assms(2)] by simp
  show "surfaced (snd (last (trace st'))) r"
    by (rule reaches_apiD(3) [OF assms(2)])
qed

lemma reaches_api_changes:
  assumes "reaches_api st (r, st')"
  shows "trace st' \<noteq> trace st"
proof
  assume "trace st' = trace st"
  then have "new_exchanges st st' = []"
    by (simp add: new_exchanges_def)
  with reaches_apiD(2) [OF assms] show False
    by (rule notE)
qed

lemma request_reaches: "reaches_api st (request Do c m p b st)"
  by (simp add: request_eq reaches_api_single)

lemma request_then_decode:
  "(case request Do c m p b st of
      (Inl e, st') \<Rightarrow> (Inl e, st')
    | (Inr data, st') \<Rightarrow>
        (case dec data of Inl e \<Rightarrow> (Inl e, st') | Inr v \<Rightarrow> (Inr v, st'))) =
   (of_outcome dec (outcome Do (NewRequest c m p b) st), net_after Do (NewRequest c m p b) st)"
proof (cases "outcome Do (NewRequest c m p b) st")
  case (DoError e)
  then show ?thesis
    by (simp add: request_eq of_outcome_def)
next
  case (DoResponse status body)
  then show ?thesis
    by (cases "dec body") (simp_all add: request_eq of_outcome_def)
qed

lemma ListBoards_eq:
  "ListBoards L Do c st =
     (of_outcome (Unmarshal L (dec_Boards L)) (outcome Do (NewRequest c ''GET'' ''/api/boards'' None) st),
      net_after Do (NewRequest c ''GET'' ''/api/boards'' None) st)"
  unfolding ListBoards_def by (rule request_then_decode)

lemma ListTasks_eq:
  "ListTasks L Do c boardID status assignee st =
     (of_outcome (Unmarshal L (dec_Tasks L))
        (outcome Do (NewRequest c ''GET'' (ListTasks_path boardID status assignee) None) st),
      net_after Do (NewRequest c ''GET'' (ListTasks_path boardID status assignee) None) st)"
  unfolding ListTasks_def by (rule request_then_decode)

lemma CreateTask_eq:
  "CreateTask L Do c params st =
     (of_outcome (Unmarshal L (dec_Task L))
        (outcome Do (NewRequest c ''POST'' ''/api/tasks'' (Some (marshal_CreateTaskParams params))) st),
      net_after Do (NewRequest c ''POST'' ''/api/tasks'' (Some (marshal_CreateTaskParams params))) st)"
  unfolding CreateTask_def by (rule request_then_decode)

lemma ListUsers_eq:
  "ListUsers L Do c st =
     (of_outcome (Unmarshal L (dec_Users L)) (outcome Do (NewRequest c ''GET'' ''/api/users'' None) st),
      net_after Do (NewRequest c ''GET'' ''/api/users'' None) st)"
  unfolding ListUsers_def by (rule request_then_decode)

lemma GetTask_reaches: "reaches_api st (GetTask L Do c ident st)"
proof -
  obtain r st' where g: "GetTask L Do c ident st = (r, st')"
    by (cases "GetTask L Do c ident st")
  have "surfaced (snd (last (trace st'))) r"
    unfolding GetTask_trace(2) [OF g] by (rule surfaced_of_outcome)
  with GetTask_reads(1,2) [OF g] show ?thesis
    unfolding g by (rule reaches_apiI)
qed

lemma UpdateTask_reaches: "reaches_api st (UpdateTask L Do c ident params st)"
proof -
  obtain r1 st1 where g1: "GetTask L Do c ident st = (r1, st1)"
    by (cases "GetTask L Do c ident st")
  have a1: "reaches_api st (r1, st1)"
    using GetTask_reaches [of st L Do c ident] unfolding g1 .
  show ?thesis
  proof (cases r1)
    case (Inl e)
    with g1 have "UpdateTask L Do c ident params st = (Inl e, st1)"
      by (simp add: UpdateTask_def)
    with a1 Inl show ?thesis
      by simp
  next
    case (Inr task)
    let ?put = "request Do c ''PUT'' (''/api/tasks/'' @ task_ID task)
                  (Some (marshal_UpdateTaskParams params)) st1"
    obtain r2 st2 where put: "?put = (r2, st2)"
      by (cases ?put)
    have a2: "reaches_api st1 (r2, st2)"
      using request_reaches [of st1 Do c "''PUT''" "''/api/tasks/'' @ task_ID task"
              "Some (marshal_UpdateTaskParams params)"]
      unfolding put .
    note tr1 = reaches_apiD(1) [OF a1]
    show ?thesis
    proof (cases r2)
      case (Inl e)
      with g1 Inr put have u: "UpdateTask L Do c ident params st = (Inl e, st2)"
        by (simp add: UpdateTask_def)
      from a2 have "reaches_api st1 (Inl e :: string + Task, st2)"
        unfolding Inl by (rule reaches_api_Inl)
      from reaches_api_trans [OF tr1 this] show ?thesis
        unfolding u .
    next
      case body: (Inr body)
      with g1 Inr put have u: "UpdateTask L Do c ident params st = GetTask L Do c (task_ID task) st2"
        by (simp add: UpdateTask_def)
      from reaches_apiD(1) [OF a2] tr1 have tr2:
        "trace st2 = trace st @ (new_exchanges st st1 @ new_exchanges st1 st2)"
        by simp
      obtain r3 st3 where g3: "GetTask L Do c (task_ID task) st2 = (r3, st3)"
        by (cases "GetTask L Do c (task_ID task) st2")
      have "reaches_api st2 (r3, st3)"
        using GetTask_reaches [of st2 L Do c "task_ID task"] unfolding g3 .
      from reaches_api_trans [OF tr2 this] show ?thesis
        unfolding u g3 .
    qed
  qed
qed

lemma AddComment_reaches: "reaches_api st (AddComment L Do c ident text st)"
proof -
  obtain r1 st1 where g1: "GetTask L Do c ident st = (r1, st1)"
    by (cases "GetTask L Do c ident st")
  have a1: "reaches_api st (r1, st1)"
    using GetTask_reaches [of st L Do c ident] unfolding g1 .
  show ?thesis
  proof (cases r1)
    case (Inl e)
    with g1 have "AddComment L Do c ident text st = (Inl e, st1)"
      by (simp add: AddComment_def)
    moreover from a1 have "reaches_api st (Inl e :: string + (string \<rightharpoonup> json) option, st1)"
      unfolding Inl by (rule reaches_api_Inl)
    ultimately show ?thesis
      by simp
  next
    case (Inr task)
    let ?post = "request Do c ''POST'' (''/api/tasks/'' @ task_ID task @ ''/comments'')
                  (Some (marshal_AddCommentParams text)) st1"
    obtain r2 st2 where post: "?post = (r2, st2)"
      by (cases ?post)
    have a2: "reaches_api st1 (r2, st2)"
      using request_reaches [of st1 Do c "''POST''" "''/api/tasks/'' @ task_ID task @ ''/comments''"
              "Some (marshal_AddCommentParams text)"]
      unfolding post .
    note tr1 = reaches_apiD(1) [OF a1]
    show ?thesis
    proof (cases r2)
      case (Inl e)
      with g1 Inr post have u: "AddComment L Do c ident text st = (Inl e, st2)"
        by (simp add: AddComment_def)
      from a2 have "reaches_api st1 (Inl e :: string + (string \<rightharpoonup> json) option, st2)"
        unfolding Inl by (rule reaches_api_Inl)
      from reaches_api_trans [OF tr1 this] show ?thesis
        unfolding u .
    next
      case data: (Inr data)
      with g1 Inr post have u: "AddComment L Do c ident text st =
          (Inr (snd (Unmarshal_Comment L data)), st2)"
        by (simp add: AddComment_def)
      from a2 have "reaches_api st1 (Inr (snd (Unmarshal_Comment L data)), st2)"
        unfolding data by (rule reaches_api_Inr)
      from reaches_api_trans [OF tr1 this] show ?thesis
        unfolding u .
    qed
  qed
qed

lemma as_value_reaches: "reaches_api st res \<Longrightarrow> reaches_api st (as_value f res)"
proof (cases res)
  case (Pair r st')
  assume "reaches_api st res"
  with Pair show ?thesis
    by (cases r) (simp_all add: as_value_def, erule reaches_api_Inl, erule reaches_api_Inr)
qed

text \<open>A tool call either stops before the client is called, leaving the network as it was,
  or reaches the remote service.\<close>

lemma callTool_reaches:
  "snd (callTool L Do s name args st) = st \<or> reaches_api st (callTool L Do s name args st)"
proof (cases "name \<in> set registered_names")
  case False
  then show ?thesis
    by (simp add: callTool_unknown)
next
  case True
  then have "name = ''list_boards'' \<or> name = ''list_tasks'' \<or> name = ''get_task'' \<or>
    name = ''create_task'' \<or> name = ''update_task'' \<or> name = ''add_comment'' \<or>
    name = ''list_users''"
    by (simp add: registered_names_def)
  then show ?thesis
  proof (elim disjE)
    assume "name = ''list_boards''"
    then show ?thesis
      by (simp add: callTool_def as_value_reaches ListBoards_eq reaches_api_single)
  next
    assume "name = ''list_tasks''"
    then show ?thesis
      by (simp add: callTool_def as_value_reaches ListTasks_eq reaches_api_single Let_def)
  next
    assume "name = ''get_task''"
    then show ?thesis
      by (simp add: callTool_def as_value_reaches GetTask_reaches case_prod_unfold Let_def)
  next
    assume "name = ''create_task''"
    then show ?thesis
      by (simp add: callTool_def as_value_reaches CreateTask_eq reaches_api_single Let_def)
  next
    assume "name = ''update_task''"
    then show ?thesis
      by (simp add: callTool_def as_value_reaches UpdateTask_reaches Let_def)
  next
    assume "name = ''add_comment''"
    then show ?thesis
      by (simp add: callTool_def as_value_reaches AddComment_reaches Let_def)
  next
    assume "name = ''list_users''"
    then show ?thesis
      by (simp add: callTool_def as_value_reaches ListUsers_eq reaches_api_single)
  qed
qed

lemma handleToolsCall_state:
  "Unmarshal L (dec_CallToolParams L) (rq_Params req) = Inr params \<Longrightarrow>
   snd (handleToolsCall L Do s req st) = snd (callTool L Do s (Name params) (Arguments params) st)"
  by (cases "callTool L Do s (Name params) (Arguments params) st")
     (simp add: handleToolsCall_def split: sum.splits)

lemma show_500: "show_int 500 = ''500''"
  by (simp add: show_int_def show_nat.simps digit_char_def)

subsection \<open>The responses a call carries on from\<close>

text \<open>A call goes on after an exchange only when the outcome was a response with a status
  below 400, or when the exchange was the ticket lookup of \<^verbatim>\<open>GetTask\<close>, whose failure
  leads to the lookup by identifier.\<close>

lemma tolerated_append: "tolerated c (xs @ ys) = (tolerated c xs \<and> tolerated c ys)"
  by (simp add: tolerated_def)

lemma tolerated_ok: "\<not> api_error out \<Longrightarrow> tolerated c [(rq, out)]"
  by (simp add: tolerated_def)

lemma of_outcome_Inr_ok: "of_outcome dec out = Inr v \<Longrightarrow> \<not> api_error out"
  by (cases out) (simp_all add: of_outcome_def api_error_def split: if_splits)

lemma ticket_lookup_NewRequest:
  "ticket_lookup c (NewRequest c ''GET'' (''/api/tasks/by-ticket/'' @ ident) None)"
  by (simp add: ticket_lookup_def NewRequest_def)

lemma GetTask_tolerated:
  assumes "GetTask L Do c ident st = (r, st')"
  shows "tolerated c (butlast (new_exchanges st st'))"
    and "r = Inr task \<Longrightarrow> tolerated c (new_exchanges st st')"
proof -
  let ?t = "NewRequest c ''GET'' (''/api/tasks/by-ticket/'' @ ident) None"
  let ?i = "NewRequest c ''GET'' (''/api/tasks/'' @ ident) None"
  let ?goal = "tolerated c (butlast (new_exchanges st st')) \<and>
    (\<not> api_error (snd (last (trace st'))) \<longrightarrow> tolerated c (new_exchanges st st'))"
  have tl: "ticket_lookup c ?t"
    by (rule ticket_lookup_NewRequest)
  from GetTask_alt [OF assms] have both: ?goal
  proof (elim disjE conjE)
    assume d: "st' = net_after Do ?i st"
    have ne: "new_exchanges st st' = [(?i, outcome Do ?i st)]"
      unfolding d by (rule new_exchanges_single)
    show ?goal
      unfolding ne by (simp add: d tolerated_def)
  next
    assume d: "st' = net_after Do ?t st"
    have ne: "new_exchanges st st' = [(?t, outcome Do ?t st)]"
      unfolding d by (rule new_exchanges_single)
    show ?goal
      unfolding ne by (simp add: d tolerated_def)
  next
    assume d: "st' = net_after Do ?i (net_after Do ?t st)"
    have ne: "new_exchanges st st' =
        [(?t, outcome Do ?t st), (?i, outcome Do ?i (net_after Do ?t st))]"
      unfolding d by (rule new_exchanges_eq) simp
    show ?goal
      unfolding ne using tl by (simp add: d tolerated_def)
  qed
  from both show "tolerated c (butlast (new_exchanges st st'))"
    by (rule conjunct1)
  assume "r = Inr task"
  with GetTask_trace(2) [OF assms]
  have "of_outcome (Unmarshal L (dec_Task L)) (snd (last (trace st'))) = Inr task"
    by simp
  then have "\<not> api_error (snd (last (trace st')))"
    by (rule of_outcome_Inr_ok)
  with both show "tolerated c (new_exchanges st st')"
    by simp
qed

lemma request_exchange:
  assumes "request Do c m p b st = (r, st')"
  shows "trace st' = trace st @ [(NewRequest c m p b, outcome Do (NewRequest c m p b) st)]"
    and "r = of_outcome Inr (outcome Do (NewRequest c m p b) st)"
  using assms by (auto simp add: request_eq)

lemma then_request_tolerated:
  assumes g1: "GetTask L Do c ident st = (Inr task, st1)"
    and rq: "request Do c m p b st1 = (r2, st2)"
  shows "new_exchanges st st2 =
           new_exchanges st st1 @ [(NewRequest c m p b, outcome Do (NewRequest c m p b) st1)]"
    and "trace st2 = trace st @ new_exchanges st st2"
    and "tolerated c (butlast (new_exchanges st st2))"
    and "r2 = Inr data \<Longrightarrow> tolerated c (new_exchanges st st2)"
proof -
  let ?x = "(NewRequest c m p b, outcome Do (NewRequest c m p b) st1)"
  from GetTask_reads(1) [OF g1] request_exchange(1) [OF rq]
  have tr: "trace st2 = trace st @ (new_exchanges st st1 @ [?x])"
    by simp
  then show ne: "new_exchanges st st2 = new_exchanges st st1 @ [?x]"
    by (rule new_exchanges_eq)
  show "trace st2 = trace st @ new_exchanges st st2"
    unfolding ne by (rule tr)
  have t1: "tolerated c (new_exchanges st st1)"
    by (rule GetTask_tolerated(2) [OF g1 refl])
  show "tolerated c (butlast (new_exchanges st st2))"
    unfolding ne using t1 by simp
  assume "r2 = Inr data"
  with request_exchange(2) [OF rq]
  have "of_outcome Inr (outcome Do (NewRequest c m p b) st1) = (Inr data :: string + string)"
    by simp
  then have "\<not> api_error (outcome Do (NewRequest c m p b) st1)"
    by (rule of_outcome_Inr_ok)
  then have "tolerated c [?x]"
    by (rule tolerated_ok)
  with t1 show "tolerated c (new_exchanges st st2)"
    unfolding ne tolerated_append by (rule conjI)
qed


lemma tolerated_Nil: "tolerated c []"
  by (simp add: tolerated_def)

lemma GetTask_tolerated_snd:
  "tolerated c (butlast (new_exchanges st (snd (GetTask L Do c ident st))))"
proof -
  obtain r st' where g: "GetTask L Do c ident st = (r, st')"
    by (cases "GetTask L Do c ident st")
  from GetTask_tolerated(1) [OF g] show ?thesis
    unfolding g snd_conv .
qed

lemma UpdateTask_tolerated:
  "tolerated c (butlast (new_exchanges st (snd (UpdateTask L Do c ident params st))))"
proof -
  obtain r1 st1 where g1: "GetTask L Do c ident st = (r1, st1)"
    by (cases "GetTask L Do c ident st")
  show ?thesis
  proof (cases r1)
    case (Inl e)
    with g1 have u: "UpdateTask L Do c ident params st = (Inl e, st1)"
      by (simp add: UpdateTask_def)
    from GetTask_tolerated(1) [OF g1] show ?thesis
      unfolding u snd_conv .
  next
    case (Inr task)
    note g = g1 [unfolded Inr]
    let ?put = "request Do c ''PUT'' (''/api/tasks/'' @ task_ID task)
                  (Some (marshal_UpdateTaskParams params)) st1"
    obtain r2 st2 where put: "?put = (r2, st2)"
      by (cases ?put)
    show ?thesis
    proof (cases r2)
      case (Inl e)
      with g put have u: "UpdateTask L Do c ident params st = (Inl e, st2)"
        by (simp add: UpdateTask_def)
      from then_request_tolerated(3) [OF g put] show ?thesis
        unfolding u snd_conv .
    next
      case body: (Inr body)
      with g put have u: "UpdateTask L Do c ident params st = GetTask L Do c (task_ID task) st2"
        by (simp add: UpdateTask_def)
      obtain r3 st3 where g3: "GetTask L Do c (task_ID task) st2 = (r3, st3)"
        by (cases "GetTask L Do c (task_ID task) st2")
      note tr2 = then_request_tolerated(2) [OF g put]
      have t2: "tolerated c (new_exchanges st st2)"
        using body by (rule then_request_tolerated(4) [OF g put])
      from GetTask_reads(1) [OF g3] tr2
      have "trace st3 = trace st @ (new_exchanges st st2 @ new_exchanges st2 st3)"
        by simp
      then have ne: "new_exchanges st st3 = new_exchanges st st2 @ new_exchanges st2 st3"
        by (rule new_exchanges_eq)
      have "tolerated c (new_exchanges st st2 @ butlast (new_exchanges st2 st3))"
        unfolding tolerated_append using t2 GetTask_tolerated(1) [OF g3] by (rule conjI)
      then have "tolerated c (butlast (new_exchanges st st3))"
        unfolding ne using GetTask_reads(2) [OF g3] by (simp add: butlast_append)
      then show ?thesis
        unfolding u g3 snd_conv .
    qed
  qed
qed

lemma AddComment_tolerated:
  "tolerated c (butlast (new_exchanges st (snd (AddComment L Do c ident text st))))"
proof -
  obtain r1 st1 where g1: "GetTask L Do c ident st = (r1, st1)"
    by (cases "GetTask L Do c ident st")
  show ?thesis
  proof (cases r1)
    case (Inl e)
    with g1 have u: "AddComment L Do c ident text st = (Inl e, st1)"
      by (simp add: AddComment_def)
    from GetTask_tolerated(1) [OF g1] show ?thesis
      unfolding u snd_conv .
  next
    case (Inr task)
    note g = g1 [unfolded Inr]
    let ?post = "request Do c ''POST'' (''/api/tasks/'' @ task_ID task @ ''/comments'')
                  (Some (marshal_AddCommentParams text)) st1"
    obtain r2 st2 where post: "?post = (r2, st2)"
      by (cases ?post)
    from g post have "snd (AddComment L Do c ident text st) = st2"
      by (cases r2) (simp_all add: AddComment_def)
    with then_request_tolerated(3) [OF g post] show ?thesis
      by simp
  qed
qed

lemma callTool_tolerated:
  "tolerated (client s) (butlast (new_exchanges st (snd (callTool L Do s name args st))))"
proof (cases "name \<in> set registered_names")
  case False
  then show ?thesis
    by (simp add: callTool_unknown new_exchanges_none tolerated_Nil)
next
  case True
  then have "name = ''list_boards'' \<or> name = ''list_tasks'' \<or> name = ''get_task'' \<or>
    name = ''create_task'' \<or> name = ''update_task'' \<or> name = ''add_comment'' \<or>
    name = ''list_users''"
    by (simp add: registered_names_def)
  then show ?thesis
  proof (elim disjE)
    assume "name = ''list_boards''"
    then show ?thesis
      by (simp add: callTool_def snd_as_value ListBoards_eq new_exchanges_single tolerated_Nil)
  next
    assume "name = ''list_tasks''"
    then show ?thesis
      by (simp add: callTool_def snd_as_value ListTasks_eq new_exchanges_single tolerated_Nil Let_def)
  next
    assume "name = ''get_task''"
    then show ?thesis
      by (simp add: callTool_def snd_as_value GetTask_tolerated_snd new_exchanges_none
            tolerated_Nil case_prod_unfold Let_def)
  next
    assume "name = ''create_task''"
    then show ?thesis
      by (simp add: callTool_def snd_as_value CreateTask_eq new_exchanges_single
            new_exchanges_none tolerated_Nil Let_def)
  next
    assume "name = ''update_task''"
    then show ?thesis
      by (simp add: callTool_def snd_as_value UpdateTask_tolerated new_exchanges_none
            tolerated_Nil Let_def)
  next
    assume "name = ''add_comment''"
    then show ?thesis
      by (simp add: callTool_def snd_as_value AddComment_tolerated new_exchanges_none
            tolerated_Nil Let_def)
  next
    assume "name = ''list_users''"
    then show ?thesis
      by (simp add: callTool_def snd_as_value ListUsers_eq new_exchanges_single tolerated_Nil)
  qed
qed


lemma tolerated_nth:
  assumes "tolerated c (butlast ex)" and "Suc i < length ex"
    and "snd (ex ! i) = DoResponse status body" and "400 \<le> status"
  shows "ticket_lookup c (fst (ex ! i))"
proof -
  from assms(2) have i: "i < length (butlast ex)"
    by simp
  with assms(1) have "api_error (snd (butlast ex ! i)) \<longrightarrow> ticket_lookup c (fst (butlast ex ! i))"
    by (simp add: tolerated_def list_all_length)
  with assms(3,4) show ?thesis
    unfolding nth_butlast [OF i] by (simp add: api_error_def)
qed

lemma handleToolsCall_undecoded:
  "Unmarshal L (dec_CallToolParams L) (rq_Params req) = Inl e \<Longrightarrow>
   snd (handleToolsCall L Do s req st) = st"
  by (simp add: handleToolsCall_def)

lemma outage_outcomes:
  "outcome outage_service (NewRequest sample_client ''GET'' ''/api/tasks/by-ticket/MNS-42'' None) st
     = DoResponse 500 ''internal error''"
  "outcome outage_service (NewRequest sample_client ''GET'' ''/api/tasks/MNS-42'' None) st
     = DoResponse 200 task_doc"
  by (simp_all add: outcome_def outage_service_def NewRequest_def sample_client_def)

lemma sample_client_server: "client (NewServer sample_client) = sample_client"
  by (simp add: NewServer_def registerTools_def)

lemma sample_get_task:
  "callTool sample_runtime Do (NewServer sample_client) ''get_task'' [''id'' \<mapsto> JStr ''MNS-42''] st =
     as_value VTask (GetTask sample_runtime Do sample_client ''MNS-42'' st)"
  by (simp add: callTool_def sample_client_server assert_string_def)

lemma net_after_unit:
  "net_after Do rq (st :: unit net) = \<lparr>world = (), trace = trace st @ [(rq, outcome Do rq st)]\<rparr>"
  by (simp add: net_after_def outcome_def)

text \<open>
  C6, with the one response that does not surface set apart. A response with a status of 400
  or more makes \<^verbatim>\<open>request\<close> fail with the message \<open>API error \<close>, the status in
  decimal, \<open>: \<close> and the raw body. Through \<^verbatim>\<open>tools/call\<close>: such a response to any of
  the requests that the call makes is either the last exchange of the call, and then the
  response to the call is a tool-error result with that message after \<open>Error: \<close>, or it is
  followed by another exchange, and then it answered a ticket lookup, the \<^verbatim>\<open>GET\<close> on
  \<open>/api/tasks/by-ticket/\<close> from which \<^verbatim>\<open>GetTask\<close> goes on to the lookup by identifier.
  For status 500 and body \<open>internal error\<close> the text is \<open>Error: API error 500: internal error\<close>.
\<close>

theorem C6_api_error_surfaces:
  assumes "400 \<le> status"
  shows "(outcome Do (NewRequest c m p b) st = DoResponse status body \<longrightarrow>
            fst (request Do c m p b st) =
              Inl (''API error '' @ show_int status @ '': '' @ body)) \<and>
         (rq_Method req = ''tools/call'' \<and> Handle L Do s req st = (resp, st') \<and>
          i < length (new_exchanges st st') \<and>
          snd (new_exchanges st st' ! i) = DoResponse status body \<longrightarrow>
            Suc i = length (new_exchanges st st') \<and>
            resp = tool_error (rq_ID req)
                     (''Error: API error '' @ show_int status @ '': '' @ body) \<or>
            Suc i < length (new_exchanges st st') \<and>
            ticket_lookup (client s) (fst (new_exchanges st st' ! i))) \<and>
         (status = 500 \<and> body = ''internal error'' \<longrightarrow>
            ''Error: API error '' @ show_int status @ '': '' @ body =
              ''Error: API error 500: internal error'')"
proof (intro conjI impI)
  assume "outcome Do (NewRequest c m p b) st = DoResponse status body"
  with assms show "fst (request Do c m p b st) =
      Inl (''API error '' @ show_int status @ '': '' @ body)"
    by (simp add: request_eq of_outcome_def)
next
  assume "status = 500 \<and> body = ''internal error''"
  then show "''Error: API error '' @ show_int status @ '': '' @ body =
      ''Error: API error 500: internal error''"
    by (simp add: show_500)
next
  let ?ex = "new_exchanges st st'"
  assume h: "rq_Method req = ''tools/call'' \<and> Handle L Do s req st = (resp, st') \<and>
          i < length ?ex \<and> snd (?ex ! i) = DoResponse status body"
  note m = h [THEN conjunct1]
    and hd = h [THEN conjunct2, THEN conjunct1]
    and i = h [THEN conjunct2, THEN conjunct2, THEN conjunct1]
    and at_i = h [THEN conjunct2, THEN conjunct2, THEN conjunct2]
  from hd have call: "handleToolsCall L Do s req st = (resp, st')"
    unfolding Handle_tools_call [OF m] .
  from i have changed: "st' \<noteq> st"
    by (auto simp add: new_exchanges_none)
  obtain params where dec: "Unmarshal L (dec_CallToolParams L) (rq_Params req) = Inr params"
  proof (cases "Unmarshal L (dec_CallToolParams L) (rq_Params req)")
    case (Inl e)
    from handleToolsCall_undecoded [OF this, of Do s st] call changed show ?thesis
      by simp
  next
    case (Inr params)
    then show ?thesis
      by (rule that)
  qed
  obtain r st1 where ct: "callTool L Do s (Name params) (Arguments params) st = (r, st1)"
    by (cases "callTool L Do s (Name params) (Arguments params) st")
  from handleToolsCall_state [OF dec, of Do s st] call ct have st1: "st1 = st'"
    by simp
  from callTool_reaches [of L Do s "Name params" "Arguments params" st] changed
  have reach: "reaches_api st (r, st')"
    unfolding ct st1 by auto
  from callTool_tolerated [of s st L Do "Name params" "Arguments params"]
  have tol: "tolerated (client s) (butlast ?ex)"
    unfolding ct st1 snd_conv .
  show "Suc i = length ?ex \<and>
        resp = tool_error (rq_ID req) (''Error: API error '' @ show_int status @ '': '' @ body) \<or>
        Suc i < length ?ex \<and> ticket_lookup (client s) (fst (?ex ! i))"
  proof (cases "Suc i = length ?ex")
    case False
    with i have less: "Suc i < length ?ex"
      by simp
    from tolerated_nth [OF tol less at_i assms] less show ?thesis
      by (intro disjI2 conjI)
  next
    case True
    from reaches_apiD(1,2) [OF reach] have "last (trace st') = last ?ex"
      by (metis last_appendR)
    also from True [symmetric] reaches_apiD(2) [OF reach] have "last ?ex = ?ex ! i"
      by (simp add: last_conv_nth)
    finally have "snd (last (trace st')) = DoResponse status body"
      using at_i by simp
    with reaches_apiD(3) [OF reach] have "surfaced (DoResponse status body) r"
      by simp
    with assms have "r = Inl (''API error '' @ show_int status @ '': '' @ body)"
      by (simp add: surfaced_def)
    with ct st1 have "callTool L Do s (Name params) (Arguments params) st =
        (Inl (''API error '' @ show_int status @ '': '' @ body), st')"
      by simp
    from handleToolsCall_error [OF dec this] call
    have "resp = tool_error (rq_ID req) (''Error: API error '' @ show_int status @ '': '' @ body)"
      by simp
    with True show ?thesis
      by (intro disjI1 conjI)
  qed
qed


theorem C6_witness:
  "Handle sample_runtime sample_service (NewServer sample_client) (call_req doc_boards) st0 =
     (tool_error (JNum 2) ''Error: API error 500: internal error'',
      \<lparr>world = (), trace = [(NewRequest sample_client ''GET'' ''/api/boards'' None,
                             DoResponse 500 ''internal error'')]\<rparr>) \<and>
   fst (request sample_service sample_client ''GET'' ''/api/boards'' None st0) =
     Inl ''API error 500: internal error'' \<and>
   new_exchanges st0
     (snd (Handle sample_runtime sample_service (NewServer sample_client) (call_req doc_get) st0)) =
     [(NewRequest sample_client ''GET'' ''/api/tasks/by-ticket/MNS-42'' None,
       DoResponse 404 ''not found''),
      (NewRequest sample_client ''GET'' ''/api/tasks/MNS-42'' None, DoResponse 200 task_doc)] \<and>
   ticket_lookup sample_client
     (NewRequest sample_client ''GET'' ''/api/tasks/by-ticket/MNS-42'' None)"
proof -
  let ?h = "Handle sample_runtime sample_service (NewServer sample_client) (call_req doc_boards) st0"
  let ?g = "Handle sample_runtime sample_service (NewServer sample_client) (call_req doc_get) st0"
  let ?rq = "NewRequest sample_client ''GET'' ''/api/boards'' None"
  let ?t = "NewRequest sample_client ''GET'' ''/api/tasks/by-ticket/MNS-42'' None"
  let ?i = "NewRequest sample_client ''GET'' ''/api/tasks/MNS-42'' None"
  have ct: "callTool sample_runtime sample_service (NewServer sample_client) ''list_boards''
      Map.empty st0 = (Inl (''API error '' @ show_int 500 @ '': internal error''),
        net_after sample_service ?rq st0)"
    by (simp add: callTool_def sample_client_server ListBoards_eq sample_outcomes of_outcome_def
          as_value_def)
  have st: "snd ?h = \<lparr>world = (), trace = [(?rq, DoResponse 500 ''internal error'')]\<rparr>"
    by (simp add: Handle_tools_call call_req_sel handleToolsCall_def sample_params_docs ct
          net_after_unit sample_outcomes sample_sel)
  have ex: "new_exchanges st0 (snd ?h) = [(?rq, DoResponse 500 ''internal error'')]"
    unfolding st by (simp add: new_exchanges_def sample_sel)
  have a: "(400::int) \<le> 500" and a': "(400::int) \<le> 404"
    by simp_all
  note inst = C6_api_error_surfaces [OF a, of sample_service sample_client "''GET''" "''/api/boards''"
      None st0 "''internal error''" "call_req doc_boards" sample_runtime
      "NewServer sample_client" "fst ?h" "snd ?h" 0]
  from inst [THEN conjunct2, THEN conjunct1]
  have "fst ?h = tool_error (rq_ID (call_req doc_boards))
      (''Error: API error '' @ show_int 500 @ '': '' @ ''internal error'')"
    by (simp add: call_req_sel ex)
  then have "fst ?h = tool_error (JNum 2) ''Error: API error 500: internal error''"
    by (simp add: call_req_sel show_500)
  with st have one: "?h = (tool_error (JNum 2) ''Error: API error 500: internal error'',
      \<lparr>world = (), trace = [(?rq, DoResponse 500 ''internal error'')]\<rparr>)"
    by (simp add: prod_eq_iff)
  from inst [THEN conjunct1] have two:
    "fst (request sample_service sample_client ''GET'' ''/api/boards'' None st0) =
     Inl ''API error 500: internal error''"
    by (simp add: sample_outcomes show_500)
  have g: "GetTask sample_runtime sample_service sample_client ''MNS-42'' st0 =
      (Inr sample_task, net_after sample_service ?i (net_after sample_service ?t st0))"
    by (simp add: GetTask_lookup lookup_by_ticket_def lookup_by_id_def lookup_eq sample_outcomes
          of_outcome_def sample_task_doc)
  have stg: "snd ?g = net_after sample_service ?i (net_after sample_service ?t st0)"
    by (simp add: Handle_tools_call call_req_sel handleToolsCall_def sample_params_docs
          sample_get_task g as_value_def)
  have three: "new_exchanges st0 (snd ?g) =
      [(?t, DoResponse 404 ''not found''), (?i, DoResponse 200 task_doc)]"
    unfolding stg by (rule new_exchanges_eq) (simp add: sample_outcomes sample_sel)
  note inst' = C6_api_error_surfaces [OF a', of sample_service sample_client "''GET''" "''/api/boards''"
      None st0 "''not found''" "call_req doc_get" sample_runtime
      "NewServer sample_client" "fst ?g" "snd ?g" 0]
  from inst' [THEN conjunct2, THEN conjunct1] have four: "ticket_lookup sample_client ?t"
    by (simp add: call_req_sel three sample_client_server)
  from one two three four show ?thesis
    by (intro conjI)
qed

text \<open>
  C6 for every response does not hold. The ticket endpoint answers \<open>get_task\<close> on
  \<open>MNS-42\<close> with status 500 and body \<open>internal error\<close>, the lookup by identifier then finds
  the task: the call returns the task as a success, and the failure appears nowhere in the
  response.
\<close>

theorem C6_counterexample:
  "Handle sample_runtime outage_service (NewServer sample_client) (call_req doc_get) st0 =
     (\<lparr>rs_JSONRPC = ''2.0'', rs_ID = JNum 2,
       rs_Result = Some (ResCallTool
         \<lparr>Content = [\<lparr>cb_Type = ''text'',
                      cb_Text = MarshalIndent sample_runtime (VTask sample_task)\<rparr>],
          IsError = False\<rparr>),
       rs_Error = None\<rparr>,
      \<lparr>world = (),
       trace = [(NewRequest sample_client ''GET'' ''/api/tasks/by-ticket/MNS-42'' None,
                 DoResponse 500 ''internal error''),
                (NewRequest sample_client ''GET'' ''/api/tasks/MNS-42'' None,
                 DoResponse 200 task_doc)]\<rparr>)"
proof -
  let ?t = "NewRequest sample_client ''GET'' ''/api/tasks/by-ticket/MNS-42'' None"
  let ?i = "NewRequest sample_client ''GET'' ''/api/tasks/MNS-42'' None"
  have g: "GetTask sample_runtime outage_service sample_client ''MNS-42'' st0 =
      (Inr sample_task, net_after outage_service ?i (net_after outage_service ?t st0))"
    by (simp add: GetTask_lookup lookup_by_ticket_def lookup_by_id_def lookup_eq outage_outcomes
          of_outcome_def sample_task_doc)
  have st: "net_after outage_service ?i (net_after outage_service ?t st0) =
      \<lparr>world = (), trace = [(?t, DoResponse 500 ''internal error''), (?i, DoResponse 200 task_doc)]\<rparr>"
    by (simp add: net_after_unit outage_outcomes sample_sel)
  show ?thesis
    by (simp add: Handle_tools_call call_req_sel handleToolsCall_def sample_params_docs
          sample_get_task g as_value_def st)
qed

lemma malformed_body_surfaces:
  "status < 400 \<Longrightarrow> \<not> checkValid body \<Longrightarrow>
   of_outcome (Unmarshal L dec) (DoResponse status body) = Inl (syntax_error L body)"
  by (simp add: of_outcome_def Unmarshal_def)

text \<open>
  C7, where the code departs from it. \<^verbatim>\<open>AddComment\<close> discards the error of
  \<^verbatim>\<open>json.Unmarshal\<close>: when the comment endpoint answers with a body that is not valid
  JSON, the operation succeeds with the \<^verbatim>\<open>nil\<close> map. (Every other operation returns
  the decoding error, \<open>malformed_body_surfaces\<close> with their equations above.)
\<close>

theorem C7_AddComment_ignores_decode_error:
  assumes "GetTask L Do c ident st = (Inr task, st1)"
    and "request Do c ''POST'' (''/api/tasks/'' @ task_ID task @ ''/comments'')
           (Some (marshal_AddCommentParams text)) st1 = (Inr body, st2)"
    and "\<not> checkValid body"
  shows "AddComment L Do c ident text st = (Inr None, st2)"
  using assms by (simp add: AddComment_def Unmarshal_Comment_def)

theorem C7_witness:
  "\<not> checkValid ''accepted'' \<and>
   fst (AddComment sample_runtime sample_service sample_client ''t1'' ''hello'' st0) = Inr None \<and>
   fst (Handle sample_runtime sample_service (NewServer sample_client) (call_req doc_comment) st0) =
     \<lparr>rs_JSONRPC = ''2.0'', rs_ID = JNum 2,
      rs_Result = Some (ResCallTool
        \<lparr>Content = [\<lparr>cb_Type = ''text'', cb_Text = ''null''\<rparr>], IsError = False\<rparr>),
      rs_Error = None\<rparr>"
proof -
  let ?g = "GetTask sample_runtime sample_service sample_client ''t1'' st0"
  let ?p = "request sample_service sample_client ''POST'' (''/api/tasks/'' @ task_ID sample_task @ ''/comments'')
              (Some (marshal_AddCommentParams ''hello'')) (snd ?g)"
  have bad: "\<not> checkValid ''accepted''"
    by (simp add: scan_defs)
  have g: "?g = (Inr sample_task, snd ?g)"
    by (simp add: prod_eq_iff sample_GetTask_id)
  have p: "?p = (Inr ''accepted'', snd ?p)"
    by (simp add: prod_eq_iff request_eq sample_sel sample_outcomes of_outcome_def)
  from C7_AddComment_ignores_decode_error [OF g p bad]
  have ac: "AddComment sample_runtime sample_service sample_client ''t1'' ''hello'' st0 =
      (Inr None, snd ?p)" .
  have client: "client (NewServer sample_client) = sample_client"
    by (simp add: NewServer_def registerTools_def)
  have "fst (Handle sample_runtime sample_service (NewServer sample_client) (call_req doc_comment) st0) =
     \<lparr>rs_JSONRPC = ''2.0'', rs_ID = JNum 2,
      rs_Result = Some (ResCallTool
        \<lparr>Content = [\<lparr>cb_Type = ''text'', cb_Text = ''null''\<rparr>], IsError = False\<rparr>),
      rs_Error = None\<rparr>"
    by (simp add: Handle_tools_call call_req_sel handleToolsCall_def sample_params_docs
          callTool_def client ac as_value_def assert_string_def sample_runtime_sel(6))
  with bad ac show ?thesis
    by simp
qed



section \<open>Optional arguments\<close>

lemma optional_getters:
  "(\<forall>v. args k \<noteq> Some (JStr v)) \<Longrightarrow> getString args k = [] \<and> getStringPtr args k = None"
  "(\<forall>v. args k \<noteq> Some (JNum v)) \<Longrightarrow> getInt L args k = 0 \<and> getIntPtr L args k = None"
  by (simp_all add: getString_def getStringPtr_def getInt_def getIntPtr_def assert_string_def
        assert_float64_def split: option.splits json.splits)

lemma callTool_valid:
  "reaches_api st (callTool L Do s ''list_boards'' args st)"
  "reaches_api st (callTool L Do s ''list_tasks'' args st)"
  "nonempty_string (args ''id'') \<Longrightarrow> reaches_api st (callTool L Do s ''get_task'' args st)"
  "nonempty_string (args ''board_id'') \<Longrightarrow> nonempty_string (args ''title'') \<Longrightarrow>
     reaches_api st (callTool L Do s ''create_task'' args st)"
  "nonempty_string (args ''id'') \<Longrightarrow> reaches_api st (callTool L Do s ''update_task'' args st)"
  "nonempty_string (args ''task_id'') \<Longrightarrow> nonempty_string (args ''text'') \<Longrightarrow>
     reaches_api st (callTool L Do s ''add_comment'' args st)"
  "reaches_api st (callTool L Do s ''list_users'' args st)"
  by (simp_all add: callTool_def Let_def case_prod_unfold assert_string_nonempty as_value_reaches
        ListBoards_eq ListTasks_eq CreateTask_eq ListUsers_eq reaches_api_single GetTask_reaches
        UpdateTask_reaches AddComment_reaches)

lemma registry_required:
  assumes "tool \<in> set (tools (NewServer c))"
  shows "(tool_Name tool = ''list_boards'' \<and> is_Required (tool_InputSchema tool) = []) \<or>
     (tool_Name tool = ''list_tasks'' \<and> is_Required (tool_InputSchema tool) = []) \<or>
     (tool_Name tool = ''get_task'' \<and> is_Required (tool_InputSchema tool) = [''id'']) \<or>
     (tool_Name tool = ''create_task'' \<and>
        is_Required (tool_InputSchema tool) = [''board_id'', ''title'']) \<or>
     (tool_Name tool = ''update_task'' \<and> is_Required (tool_InputSchema tool) = [''id'']) \<or>
     (tool_Name tool = ''add_comment'' \<and>
        is_Required (tool_InputSchema tool) = [''task_id'', ''text'']) \<or>
     (tool_Name tool = ''list_users'' \<and> is_Required (tool_InputSchema tool) = [])"
proof -
  from assms have "tool = tools (NewServer c) ! 0 \<or> tool = tools (NewServer c) ! 1 \<or>
    tool = tools (NewServer c) ! 2 \<or> tool = tools (NewServer c) ! 3 \<or>
    tool = tools (NewServer c) ! 4 \<or> tool = tools (NewServer c) ! 5 \<or>
    tool = tools (NewServer c) ! 6"
    by (simp add: NewServer_def registerTools_def)
  then show ?thesis
    by (elim disjE) (simp_all add: NewServer_def registerTools_def)
qed

lemma callTool_required:
  assumes "tool \<in> set (tools (NewServer c))"
    and "\<forall>k\<in>set (is_Required (tool_InputSchema tool)). nonempty_string (args k)"
  shows "reaches_api st (callTool L Do s (tool_Name tool) args st)"
  using registry_required [OF assms(1)] assms(2)
  by (elim disjE conjE) (simp_all add: callTool_valid)

lemma filter_param_eq:
  "(if fst (assert_string (args arg)) \<noteq> [] then [(key, fst (assert_string (args arg)))] else [])
     = filter_param args arg key"
  by (simp add: filter_param_def assert_string_def split: option.splits json.splits)

lemma ListTasks_params_eq:
  "ListTasks_params b t a =
     (if b \<noteq> [] then [(''boardId'', b)] else []) @ (if t \<noteq> [] then [(''status'', t)] else [])
       @ (if a \<noteq> [] then [(''assignee'', a)] else [])"
  by (simp add: ListTasks_params_def)

lemma ListTasks_params_args:
  "ListTasks_params (fst (assert_string (args ''board_id''))) (fst (assert_string (args ''status'')))
     (fst (assert_string (args ''assignee''))) = list_filters args"
  unfolding ListTasks_params_eq filter_param_eq list_filters_def ..

lemma ListTasks_path_eq:
  "ListTasks_path b t a =
     ''/api/tasks'' @ (if ListTasks_params b t a = [] then []
                        else ''?'' @ Values_Encode (ListTasks_params b t a))"
  by (simp add: ListTasks_path_def Let_def)

lemma callTool_list_tasks:
  "new_exchanges st (snd (callTool L Do s ''list_tasks'' args st)) =
     [(NewRequest (client s) ''GET''
         (''/api/tasks'' @ (if list_filters args = [] then []
                             else ''?'' @ Values_Encode (list_filters args))) None,
       outcome Do (NewRequest (client s) ''GET''
         (''/api/tasks'' @ (if list_filters args = [] then []
                             else ''?'' @ Values_Encode (list_filters args))) None) st)]"
proof -
  have "callTool L Do s ''list_tasks'' args st =
      as_value VTasks (ListTasks L Do (client s) (fst (assert_string (args ''board_id'')))
        (fst (assert_string (args ''status''))) (fst (assert_string (args ''assignee''))) st)"
    by (simp add: callTool_def Let_def)
  then show ?thesis
    unfolding ListTasks_eq ListTasks_path_eq ListTasks_params_args
    by (simp only: snd_as_value snd_conv new_exchanges_single)
qed

lemma omit_ptr_string: "omit_ptr k JStr (getStringPtr args k) = optional_string args k"
  by (simp add: omit_ptr_def getStringPtr_def assert_string_def optional_string_def
        split: option.splits json.splits)

lemma omit_ptr_int:
  "omit_ptr k (\<lambda>i. JNum (of_int i)) (getIntPtr L args k) = optional_int L args k"
  by (simp add: omit_ptr_def getIntPtr_def assert_float64_def optional_int_def
        split: option.splits json.splits)

lemma marshal_update_args:
  "marshal_UpdateTaskParams
     \<lparr>ut_Title = getStringPtr args ''title'', ut_Description = getStringPtr args ''description'',
      ut_Assignee = getStringPtr args ''assignee'', ut_Status = getStringPtr args ''status'',
      ut_Priority = getIntPtr L args ''priority''\<rparr> = JObj (supplied_fields L args)"
  by (simp add: marshal_UpdateTaskParams_def supplied_fields_def omit_ptr_string omit_ptr_int)

lemma UpdateTask_puts:
  "\<forall>x\<in>set (new_exchanges st (snd (UpdateTask L Do c ident params st))).
     h_method (fst x) = ''PUT'' \<longrightarrow> h_body (fst x) = Some (marshal_UpdateTaskParams params)"
proof -
  let ?P = "\<lambda>ex. \<forall>x\<in>set ex. h_method (fst x) = ''PUT'' \<longrightarrow>
      h_body (fst x) = Some (marshal_UpdateTaskParams params)"
  have gets: "?P ex" if "\<forall>x\<in>set ex. h_method (fst x) = ''GET'' \<and> h_body (fst x) = None" for ex
    using that by simp
  obtain r1 st1 where g1: "GetTask L Do c ident st = (r1, st1)"
    by (cases "GetTask L Do c ident st")
  note tr1 = GetTask_reads(1) [OF g1]
  have p1: "?P (new_exchanges st st1)"
    by (rule gets) (rule GetTask_reads(4) [OF g1])
  show ?thesis
  proof (cases r1)
    case (Inl e)
    with g1 have "UpdateTask L Do c ident params st = (Inl e, st1)"
      by (simp add: UpdateTask_def)
    with p1 show ?thesis
      by simp
  next
    case (Inr task)
    let ?rq = "NewRequest c ''PUT'' (''/api/tasks/'' @ task_ID task)
                 (Some (marshal_UpdateTaskParams params))"
    have pw: "?P [(?rq, outcome Do ?rq st1)]"
      by (simp add: NewRequest_sel)
    have tr2: "trace (net_after Do ?rq st1) =
        trace st @ (new_exchanges st st1 @ [(?rq, outcome Do ?rq st1)])"
      using tr1 by simp
    show ?thesis
    proof (cases "of_outcome Inr (outcome Do ?rq st1) :: string + string")
      case (Inl e)
      with g1 Inr have u: "UpdateTask L Do c ident params st = (Inl e, net_after Do ?rq st1)"
        by (simp add: UpdateTask_def request_eq)
      from p1 pw show ?thesis
        unfolding u snd_conv new_exchanges_eq [OF tr2] by (simp add: ball_Un)
    next
      case body: (Inr body)
      with g1 Inr have u: "UpdateTask L Do c ident params st =
          GetTask L Do c (task_ID task) (net_after Do ?rq st1)"
        by (simp add: UpdateTask_def request_eq)
      obtain r3 st3 where g3: "GetTask L Do c (task_ID task) (net_after Do ?rq st1) = (r3, st3)"
        by (cases "GetTask L Do c (task_ID task) (net_after Do ?rq st1)")
      have p3: "?P (new_exchanges (net_after Do ?rq st1) st3)"
        by (rule gets) (rule GetTask_reads(4) [OF g3])
      from GetTask_reads(1) [OF g3] tr2 have tr3: "trace st3 =
          trace st @ (new_exchanges st st1 @ [(?rq, outcome Do ?rq st1)]
            @ new_exchanges (net_after Do ?rq st1) st3)"
        by simp
      from p1 pw p3 show ?thesis
        unfolding u g3 snd_conv new_exchanges_eq [OF tr3] by (simp add: ball_Un)
    qed
  qed
qed

lemma callTool_update_puts:
  "\<forall>x\<in>set (new_exchanges st (snd (callTool L Do s ''update_task'' args st))).
     h_method (fst x) = ''PUT'' \<longrightarrow> h_body (fst x) = Some (JObj (supplied_fields L args))"
proof (cases "fst (assert_string (args ''id'')) = []")
  case True
  then have "callTool L Do s ''update_task'' args st = (Inl ''id is required'', st)"
    by (simp add: callTool_def)
  then show ?thesis
    by (simp add: new_exchanges_none)
next
  case False
  then have "callTool L Do s ''update_task'' args st =
      as_value VTask (UpdateTask L Do (client s) (fst (assert_string (args ''id'')))
        \<lparr>ut_Title = getStringPtr args ''title'', ut_Description = getStringPtr args ''description'',
         ut_Assignee = getStringPtr args ''assignee'', ut_Status = getStringPtr args ''status'',
         ut_Priority = getIntPtr L args ''priority''\<rparr> st)"
    by (simp add: callTool_def Let_def)
  then show ?thesis
    using UpdateTask_puts [of st L Do "client s" "fst (assert_string (args ''id''))"
        "\<lparr>ut_Title = getStringPtr args ''title'', ut_Description = getStringPtr args ''description'',
         ut_Assignee = getStringPtr args ''assignee'', ut_Status = getStringPtr args ''status'',
         ut_Priority = getIntPtr L args ''priority''\<rparr>"]
    by (simp only: snd_as_value marshal_update_args)
qed

text \<open>
  C8. An optional argument that is missing, or present with another JSON type, reads as the
  empty string, zero or \<^verbatim>\<open>nil\<close>. A call of a registered tool whose required arguments
  are non-empty strings reaches the remote service, whatever its other arguments are: no
  validation error comes from an optional argument. \<open>list_tasks\<close> issues one \<^verbatim>\<open>GET\<close>
  on \<open>/api/tasks\<close> whose query holds \<open>boardId\<close>, \<open>status\<close> and \<open>assignee\<close> exactly for
  the arguments that are non-empty strings (no query at all when there is none), and every
  \<^verbatim>\<open>PUT\<close> that \<open>update_task\<close> issues has as body the object of the optional fields
  supplied with the right type, and no other member.
\<close>

theorem C8_optional_arguments:
  "((\<forall>v. args k \<noteq> Some (JStr v)) \<longrightarrow> getString args k = [] \<and> getStringPtr args k = None) \<and>
   ((\<forall>v. args k \<noteq> Some (JNum v)) \<longrightarrow> getInt L args k = 0 \<and> getIntPtr L args k = None) \<and>
   (tool \<in> set (tools (NewServer c)) \<and>
    (\<forall>k\<in>set (is_Required (tool_InputSchema tool)). nonempty_string (args k)) \<longrightarrow>
      reaches_api st (callTool L Do s (tool_Name tool) args st)) \<and>
   (\<exists>out. new_exchanges st (snd (callTool L Do s ''list_tasks'' args st)) =
      [(NewRequest (client s) ''GET''
          (''/api/tasks'' @ (if list_filters args = [] then []
                              else ''?'' @ Values_Encode (list_filters args))) None, out)]) \<and>
   (\<forall>x\<in>set (new_exchanges st (snd (callTool L Do s ''update_task'' args st))).
      h_method (fst x) = ''PUT'' \<longrightarrow> h_body (fst x) = Some (JObj (supplied_fields L args)))"
proof -
  have a: "(\<forall>v. args k \<noteq> Some (JStr v)) \<longrightarrow> getString args k = [] \<and> getStringPtr args k = None"
    by (rule impI) (rule optional_getters(1))
  have b: "(\<forall>v. args k \<noteq> Some (JNum v)) \<longrightarrow> getInt L args k = 0 \<and> getIntPtr L args k = None"
    by (rule impI) (rule optional_getters(2))
  have c: "tool \<in> set (tools (NewServer c)) \<and>
      (\<forall>k\<in>set (is_Required (tool_InputSchema tool)). nonempty_string (args k)) \<longrightarrow>
      reaches_api st (callTool L Do s (tool_Name tool) args st)"
    by (rule impI, elim conjE) (rule callTool_required)
  have d: "\<exists>out. new_exchanges st (snd (callTool L Do s ''list_tasks'' args st)) =
      [(NewRequest (client s) ''GET''
          (''/api/tasks'' @ (if list_filters args = [] then []
                              else ''?'' @ Values_Encode (list_filters args))) None, out)]"
    by (rule exI) (rule callTool_list_tasks)
  have e: "\<forall>x\<in>set (new_exchanges st (snd (callTool L Do s ''update_task'' args st))).
      h_method (fst x) = ''PUT'' \<longrightarrow> h_body (fst x) = Some (JObj (supplied_fields L args))"
    by (rule callTool_update_puts)
  show ?thesis
    by (rule conjI [OF a conjI [OF b conjI [OF c conjI [OF d e]]]])
qed

theorem C8_witness:
  "getString list_args ''status'' = [] \<and>
   getIntPtr sample_runtime update_args ''priority'' = None \<and>
   reaches_api st0
     (callTool sample_runtime sample_service (NewServer sample_client) ''update_task''
        update_args st0) \<and>
   (\<exists>out. new_exchanges st0
        (snd (callTool sample_runtime sample_service (NewServer sample_client) ''list_tasks''
           list_args st0)) =
      [(NewRequest sample_client ''GET'' ''/api/tasks?boardId=b+1'' None, out)]) \<and>
   supplied_fields sample_runtime update_args = [(''status'', JStr ''completed'')]"
proof -
  let ?S = "NewServer sample_client"
  note inst_list = C8_optional_arguments [of list_args "''status''" sample_runtime
      "tools ?S ! 1" sample_client st0 sample_service ?S]
  note inst_update = C8_optional_arguments [of update_args "''priority''" sample_runtime
      "tools ?S ! 4" sample_client st0 sample_service ?S]
  have client: "client ?S = sample_client"
    by (simp add: NewServer_def registerTools_def)
  have filters: "list_filters list_args = [(''boardId'', ''b 1'')]"
    by (simp add: list_filters_def filter_param_def list_args_def)
  have enc: "Values_Encode [(''boardId'', ''b 1'')] = ''boardId=b+1''"
    by (simp add: Values_Encode_def QueryEscape_def shouldEscape_def upperhex_def)
  from inst_list [THEN conjunct1] have w1: "getString list_args ''status'' = []"
    by (simp add: list_args_def)
  from inst_update [THEN conjunct2, THEN conjunct1]
  have w2: "getIntPtr sample_runtime update_args ''priority'' = None"
    by (simp add: update_args_def)
  have tool: "tools ?S ! 4 \<in> set (tools ?S)" "tool_Name (tools ?S ! 4) = ''update_task''"
    "is_Required (tool_InputSchema (tools ?S ! 4)) = [''id'']"
    by (simp_all add: NewServer_def registerTools_def)
  have "nonempty_string (update_args ''id'')"
    by (simp add: nonempty_string_def update_args_def)
  with inst_update [THEN conjunct2, THEN conjunct2, THEN conjunct1] tool
  have w3: "reaches_api st0 (callTool sample_runtime sample_service ?S ''update_task''
      update_args st0)"
    by simp
  from inst_list [THEN conjunct2, THEN conjunct2, THEN conjunct2, THEN conjunct1]
  have w4: "\<exists>out. new_exchanges st0
        (snd (callTool sample_runtime sample_service ?S ''list_tasks'' list_args st0)) =
      [(NewRequest sample_client ''GET'' ''/api/tasks?boardId=b+1'' None, out)]"
    unfolding client filters enc by simp
  have w5: "supplied_fields sample_runtime update_args = [(''status'', JStr ''completed'')]"
    by (simp add: supplied_fields_def optional_string_def optional_int_def update_args_def)
  show ?thesis
    by (rule conjI [OF w1 conjI [OF w2 conjI [OF w3 conjI [OF w4 w5]]]])
qed


end
